theory Spec2Isabelle
  imports Complex_Main "HOL-Library.Word" "HOL-Library.Char_ord" "HOL-Library.List_Lexorder"
begin

text \<open>
  The fetch, cache and transform pipeline of the stockticker service: the expiring cache
  of internal/cache, and \<^verbatim>\<open>GetStockData\<close> and \<^verbatim>\<open>processAPIResponse\<close> of the stock service,
  which looks the symbol up in the cache, asks the client on a miss, sorts the dates of
  the payload, keeps the newest \<^verbatim>\<open>NDays\<close>, averages their close prices and caches the result
  for 15 minutes. The clock, the client and \<^verbatim>\<open>strconv.ParseFloat\<close> are parameters of the
  model; the calls are sequential.
\<close>

section \<open>The expiring cache (internal/cache/cache.go)\<close>

text \<open>
  Go's \<^verbatim>\<open>int64\<close> is a 64-bit word read in two's complement (\<open>sint\<close>); \<open>+\<close> wraps.
  A clock reading is the value of \<^verbatim>\<open>time.Now().UnixNano()\<close>, a \<^verbatim>\<open>time.Duration\<close> is an
  \<^verbatim>\<open>int64\<close> count of nanoseconds.
\<close>

type_synonym int64 = "64 word"

record 'v Item =
  Value :: 'v
  Expiration :: int64

record 'v Cache =
  items :: "string \<rightharpoonup> 'v Item"

definition Cache_New :: "'v Cache" where
  "Cache_New = \<lparr>items = Map.empty\<rparr>"

text \<open>
  \<^verbatim>\<open>time.Now().Add(duration).UnixNano()\<close>: \<^verbatim>\<open>Add\<close> is exact on the wall clock, and
  \<^verbatim>\<open>UnixNano\<close> computes \<^verbatim>\<open>sec*1e9 + nsec\<close> in \<^verbatim>\<open>int64\<close>, so the stored reading is the
  sum of the current reading and the duration modulo \<open>2^64\<close>.
\<close>

definition Add_UnixNano :: "int64 \<Rightarrow> int64 \<Rightarrow> int64" where
  "Add_UnixNano now duration = now + duration"

definition Cache_Set :: "int64 \<Rightarrow> 'v Cache \<Rightarrow> string \<Rightarrow> 'v \<Rightarrow> int64 \<Rightarrow> 'v Cache" where
  "Cache_Set now c key val duration =
     (let expiration = Add_UnixNano now duration
      in c\<lparr>items := (items c)(key \<mapsto> \<lparr>Value = val, Expiration = expiration\<rparr>)\<rparr>)"

text \<open>The result of \<^verbatim>\<open>Get\<close> is the pair \<^verbatim>\<open>(interface{}, bool)\<close>; \<open>None\<close> is \<^verbatim>\<open>nil\<close>.\<close>

definition Cache_Get :: "int64 \<Rightarrow> 'v Cache \<Rightarrow> string \<Rightarrow> 'v option \<times> bool" where
  "Cache_Get now c key =
     (case items c key of
        None \<Rightarrow> (None, False)
      | Some item \<Rightarrow>
          if sint now > sint (Expiration item) then (None, False)
          else (Some (Value item), True))"

definition Cache_Delete :: "'v Cache \<Rightarrow> string \<Rightarrow> 'v Cache" where
  "Cache_Delete c key = c\<lparr>items := (items c)(key := None)\<rparr>"

text \<open>
  The loop of \<^verbatim>\<open>Cleanup\<close> over \<^verbatim>\<open>range c.items\<close>. Go leaves the iteration order of a map
  open, so the order in which the keys are visited is the list \<open>ks\<close>; a key that is no
  longer in the map when its turn comes is not produced.
\<close>

fun Cleanup_loop :: "int64 \<Rightarrow> string list \<Rightarrow> (string \<rightharpoonup> 'v Item) \<Rightarrow> (string \<rightharpoonup> 'v Item)" where
  "Cleanup_loop now [] m = m"
| "Cleanup_loop now (k # ks) m =
     (case m k of
        None \<Rightarrow> Cleanup_loop now ks m
      | Some v \<Rightarrow>
          if sint now > sint (Expiration v) then Cleanup_loop now ks (m(k := None))
          else Cleanup_loop now ks m)"

definition Cache_Cleanup :: "string list \<Rightarrow> int64 \<Rightarrow> 'v Cache \<Rightarrow> 'v Cache" where
  "Cache_Cleanup ks now c = c\<lparr>items := Cleanup_loop now ks (items c)\<rparr>"


section \<open>Go's \<^verbatim>\<open>float64\<close>\<close>

text \<open>
  The values of IEEE 754 binary64: the finite ones by their exact rational value (with
  \<open>Finite 0\<close> for \<open>+0\<close>), the negative zero, the two infinities and not-a-number. Every
  operation computes the exact result and rounds it to the nearest binary64 value, ties
  to the even significand (53 bits, exponents from \<open>-1022\<close> to 1023, gradual underflow).
\<close>

datatype float64 = Finite rat | NegZero | PosInf | NegInf | NaN

text \<open>The number of binary digits of a positive integer.\<close>

function bitlen :: "int \<Rightarrow> int" where
  "bitlen n = (if n \<le> 0 then 0 else 1 + bitlen (n div 2))"
  by pat_completeness auto
termination
  by (relation "measure nat") auto

declare bitlen.simps [simp del]

text \<open>For \<open>a > 0\<close>, the integer \<open>e\<close> with \<open>2^e \<le> a < 2^(e+1)\<close>.\<close>

definition ilog2 :: "rat \<Rightarrow> int" where
  "ilog2 a = (if 1 \<le> a then bitlen \<lfloor>a\<rfloor> - 1 else - bitlen (\<lceil>1 / a\<rceil> - 1))"

definition round_half_even :: "rat \<Rightarrow> int" where
  "round_half_even x =
     (let f = \<lfloor>x\<rfloor>; r = x - of_int f
      in if r < 1 / 2 then f else if 1 / 2 < r then f + 1 else if even f then f else f + 1)"

definition round64 :: "rat \<Rightarrow> float64" where
  "round64 x =
     (if x = 0 then Finite 0
      else
        let a = \<bar>x\<bar>;
            e = max (ilog2 a) (- 1022);
            q = 2 powi (e - 52);
            m = round_half_even (a / q);
            y = of_int m * q
        in if 2 ^ 1024 \<le> y then (if 0 < x then PosInf else NegInf)
           else if m = 0 then (if 0 < x then Finite 0 else NegZero)
           else Finite (if 0 < x then y else - y))"
fun sign_neg :: "float64 \<Rightarrow> bool" where
  "sign_neg (Finite x) = (x < 0)"
| "sign_neg NegZero = True"
| "sign_neg PosInf = False"
| "sign_neg NegInf = True"
| "sign_neg NaN = False"

fun is_zero :: "float64 \<Rightarrow> bool" where
  "is_zero (Finite x) = (x = 0)"
| "is_zero NegZero = True"
| "is_zero _ = False"

fun is_inf :: "float64 \<Rightarrow> bool" where
  "is_inf PosInf = True"
| "is_inf NegInf = True"
| "is_inf _ = False"

fun exact_value :: "float64 \<Rightarrow> rat" where
  "exact_value (Finite x) = x"
| "exact_value _ = 0"

fun fadd :: "float64 \<Rightarrow> float64 \<Rightarrow> float64" where
  "fadd NaN _ = NaN"
| "fadd _ NaN = NaN"
| "fadd PosInf NegInf = NaN"
| "fadd NegInf PosInf = NaN"
| "fadd PosInf _ = PosInf"
| "fadd _ PosInf = PosInf"
| "fadd NegInf _ = NegInf"
| "fadd _ NegInf = NegInf"
| "fadd NegZero y = y"
| "fadd x NegZero = x"
| "fadd (Finite x) (Finite y) = round64 (x + y)"

definition fdiv :: "float64 \<Rightarrow> float64 \<Rightarrow> float64" where
  "fdiv x y =
     (if x = NaN \<or> y = NaN then NaN
      else if is_inf x \<and> is_inf y then NaN
      else if is_zero x \<and> is_zero y then NaN
      else
        let neg = (sign_neg x \<noteq> sign_neg y)
        in if is_inf x \<or> is_zero y then (if neg then NegInf else PosInf)
           else if is_zero x \<or> is_inf y then (if neg then NegZero else Finite 0)
           else round64 (exact_value x / exact_value y))"

definition float64_of_int :: "int \<Rightarrow> float64" where
  "float64_of_int n = round64 (of_int n)"

text \<open>
  \<^verbatim>\<open>strconv.ParseFloat(s, 64)\<close> belongs to Go's library and is a parameter of the service
  below. On plain decimal literals (an optional sign, digits, an optional point and
  digits) it returns the nearest \<^verbatim>\<open>float64\<close>, and an error when that is an infinity or when
  the text is not a number; \<open>ParseFloat_decimal\<close> is this part of it, used to run the
  service on concrete payloads. (The library function accepts further forms: exponents,
  hexadecimal literals, infinities and not-a-number; here they give \<open>None\<close>.)
\<close>

definition is_digit :: "char \<Rightarrow> bool" where
  "is_digit c = (CHR ''0'' \<le> c \<and> c \<le> CHR ''9'')"

definition digit_value :: "char \<Rightarrow> int" where
  "digit_value c = of_char c - 48"

fun digits_value :: "int \<Rightarrow> string \<Rightarrow> int" where
  "digits_value acc [] = acc"
| "digits_value acc (c # cs) = digits_value (10 * acc + digit_value c) cs"

definition ParseFloat_decimal :: "string \<Rightarrow> float64 option" where
  "ParseFloat_decimal s =
     (let neg = (s \<noteq> [] \<and> hd s = CHR ''-'');
          body = (if s \<noteq> [] \<and> (hd s = CHR ''-'' \<or> hd s = CHR ''+'') then tl s else s);
          ip = takeWhile is_digit body;
          rest = dropWhile is_digit body;
          fp = (if rest \<noteq> [] \<and> hd rest = CHR ''.'' then tl rest else [])
      in if (rest \<noteq> [] \<and> hd rest \<noteq> CHR ''.'') \<or> \<not> list_all is_digit fp \<or> (ip = [] \<and> fp = [])
         then None
         else
           let m = digits_value 0 (ip @ fp);
               x = of_int m / 10 ^ length fp
           in if m = 0 then Some (if neg then NegZero else Finite 0)
              else (case round64 (if neg then - x else x) of
                      PosInf \<Rightarrow> None
                    | NegInf \<Rightarrow> None
                    | y \<Rightarrow> Some y))"

section \<open>The models (pkg/models) and the configuration (internal/config)\<close>

record MetaData =
  Information :: string
  Symbol :: string
  LastRefreshed :: string
  OutputSize :: string
  TimeZone :: string

record DailyPrice =
  Open :: string
  High :: string
  Low :: string
  Close :: string
  Volume :: string

text \<open>
  \<^verbatim>\<open>TimeSeries map[string]DailyPrice\<close>: the entries of the map, in the order in which
  \<^verbatim>\<open>range\<close> produces them (Go leaves that order open); a key occurs once.
\<close>

record AlphaVantageResponse =
  MetaData :: MetaData
  TimeSeries :: "(string \<times> DailyPrice) list"

record StockPrice =
  Date :: string
  Close :: float64

record StockData =
  Symbol :: string
  Prices :: "StockPrice list"
  Average :: float64

record Config =
  Port :: string
  APIKey :: string
  Symbol :: string
  NDays :: int

text \<open>
  The payloads of the tests (internal/service/stock\_test.go) give each day its close
  price only: \<^verbatim>\<open>{Close: "150.10"}\<close>, the other fields being empty strings.
\<close>

definition DailyPrice_of_Close :: "string \<Rightarrow> DailyPrice" where
  "DailyPrice_of_Close c = \<lparr>Open = [], High = [], Low = [], DailyPrice.Close = c, Volume = []\<rparr>"

definition MetaData_zero :: MetaData where
  "MetaData_zero = \<lparr>Information = [], MetaData.Symbol = [], LastRefreshed = [],
     OutputSize = [], TimeZone = []\<rparr>"

section \<open>The stock service\<close>

text \<open>
  Errors are values. The two errors that \<^verbatim>\<open>processAPIResponse\<close> makes with \<^verbatim>\<open>fmt.Errorf\<close>
  carry the date and the symbol of their messages. \<^verbatim>\<open>GetStockData\<close> returns either the
  error of the client, as it is (\<open>Inl\<close>), or one of these two (\<open>Inr\<close>). A run-time panic is
  an outcome of its own.
\<close>

datatype error = ErrParseClose string | ErrNoPriceData string

datatype panic = SliceBoundsOutOfRange int | InterfaceConversion

datatype 'a outcome = Returns 'a | Panics panic

text \<open>\<^verbatim>\<open>15 * time.Minute\<close>, in nanoseconds.\<close>

definition cacheDuration :: int64 where
  "cacheDuration = 15 * 60 * 1000000000"

text \<open>
  \<^verbatim>\<open>sort.Sort(sort.Reverse(sort.StringSlice(dates)))\<close>: the dates in descending order of
  Go's string comparison, which is the lexicographic order of the bytes.
\<close>

definition sort_Reverse_StringSlice :: "string list \<Rightarrow> string list" where
  "sort_Reverse_StringSlice dates = rev (sort dates)"

text \<open>\<^verbatim>\<open>m[key]\<close> on a Go map: the zero value when the key is missing.\<close>

definition TimeSeries_index :: "(string \<times> DailyPrice) list \<Rightarrow> string \<Rightarrow> DailyPrice" where
  "TimeSeries_index ts date =
     (case map_of ts date of
        Some dailyPrice \<Rightarrow> dailyPrice
      | None \<Rightarrow> \<lparr>Open = [], High = [], Low = [], DailyPrice.Close = [], Volume = []\<rparr>)"

text \<open>
  The loop over the retained dates. \<open>ParseFloat\<close> is \<^verbatim>\<open>strconv.ParseFloat(s, 64)\<close>, a
  parameter: \<open>None\<close> when it returns an error. The result is the date of the first close
  price that does not parse, or the prices and their running total.
\<close>

fun process_dates ::
  "(string \<Rightarrow> float64 option) \<Rightarrow> (string \<times> DailyPrice) list \<Rightarrow> string list \<Rightarrow>
   StockPrice list \<Rightarrow> float64 \<Rightarrow> string + (StockPrice list \<times> float64)" where
  "process_dates ParseFloat ts [] prices totalClose = Inr (prices, totalClose)"
| "process_dates ParseFloat ts (date # dates) prices totalClose =
     (let dailyPrice = TimeSeries_index ts date
      in case ParseFloat (DailyPrice.Close dailyPrice) of
           None \<Rightarrow> Inl date
         | Some closePrice \<Rightarrow>
             process_dates ParseFloat ts dates
               (prices @ [\<lparr>Date = date, StockPrice.Close = closePrice\<rparr>])
               (fadd totalClose closePrice))"

text \<open>
  The slice expression \<^verbatim>\<open>dates[:n]\<close>: it panics when \<open>n\<close> is negative or beyond the capacity
  of the slice, which for \<open>dates\<close> is its length (\<^verbatim>\<open>make([]string, 0, len(...))\<close> followed by
  one \<^verbatim>\<open>append\<close> for each key).
\<close>

definition slice_upto :: "string list \<Rightarrow> int \<Rightarrow> panic + string list" where
  "slice_upto dates n =
     (if n < 0 \<or> int (length dates) < n then Inl (SliceBoundsOutOfRange n)
      else Inr (take (nat n) dates))"

text \<open>
  \<^verbatim>\<open>processAPIResponse\<close>. The client hands over a response only together with a \<^verbatim>\<open>nil\<close>
  error, and then the pointer is not \<^verbatim>\<open>nil\<close>; so the response is a value here. \<open>Finite 0\<close> is
  the zero value of \<^verbatim>\<open>totalClose\<close>.
\<close>

definition processAPIResponse ::
  "(string \<Rightarrow> float64 option) \<Rightarrow> Config \<Rightarrow> AlphaVantageResponse \<Rightarrow>
   (error + StockData) outcome" where
  "processAPIResponse ParseFloat config apiResponse =
     (let dates = map fst (TimeSeries apiResponse);
          dates = sort_Reverse_StringSlice dates;
          sliced = (if int (length dates) > NDays config
                    then slice_upto dates (NDays config) else Inr dates)
      in case sliced of
           Inl p \<Rightarrow> Panics p
         | Inr dates \<Rightarrow>
             (case process_dates ParseFloat (TimeSeries apiResponse) dates [] (Finite 0) of
                Inl date \<Rightarrow> Returns (Inl (ErrParseClose date))
              | Inr (prices, totalClose) \<Rightarrow>
                  if length prices = 0
                  then Returns (Inl (ErrNoPriceData (Config.Symbol config)))
                  else
                    let average = fdiv totalClose (float64_of_int (int (length prices)))
                    in Returns (Inr \<lparr>StockData.Symbol = Config.Symbol config,
                                      Prices = prices, Average = average\<rparr>)))"

text \<open>
  The cache holds values of type \<^verbatim>\<open>interface{}\<close>: a pointer to a \<^verbatim>\<open>StockData\<close>, or a value
  of any other dynamic type, on which the type assertion of \<^verbatim>\<open>GetStockData\<close> panics.
\<close>

datatype iface = PtrStockData StockData | OtherDynamicType

text \<open>
  What a call of \<^verbatim>\<open>GetStockData\<close> can change: the cache, and the record of the calls made
  to the client (symbol and day count of each).
\<close>

record ServiceState =
  cache :: "iface Cache"
  fetches :: "(string \<times> int) list"

text \<open>
  \<^verbatim>\<open>StockService.GetStockData\<close>. \<open>client\<close> is \<^verbatim>\<open>s.client.GetStockData\<close>, the outcome of the
  request to the provider for this call; \<open>t_get\<close> and \<open>t_set\<close> are the clock readings at the
  \<^verbatim>\<open>Get\<close> and at the \<^verbatim>\<open>Set\<close>. The \<^verbatim>\<open>StockData\<close> behind the pointer is not written to after
  its construction, so the pointer is modelled by the value.
\<close>

definition GetStockData ::
  "(string \<Rightarrow> float64 option) \<Rightarrow> Config \<Rightarrow> (string \<Rightarrow> int \<Rightarrow> 'e + AlphaVantageResponse) \<Rightarrow>
   int64 \<Rightarrow> int64 \<Rightarrow> ServiceState \<Rightarrow>
   (('e + error) + StockData) outcome \<times> ServiceState" where
  "GetStockData ParseFloat config client t_get t_set s =
     (let cacheKey = Config.Symbol config;
          (cachedData, found) = Cache_Get t_get (cache s) cacheKey
      in if found
         then (case cachedData of
                 Some (PtrStockData stockData) \<Rightarrow> (Returns (Inr stockData), s)
               | _ \<Rightarrow> (Panics InterfaceConversion, s))
         else
           let s = s\<lparr>fetches := fetches s @ [(Config.Symbol config, NDays config)]\<rparr>
           in (case client (Config.Symbol config) (NDays config) of
                 Inl err \<Rightarrow> (Returns (Inl (Inl err)), s)
               | Inr apiResponse \<Rightarrow>
                   (case processAPIResponse ParseFloat config apiResponse of
                      Panics p \<Rightarrow> (Panics p, s)
                    | Returns (Inl err) \<Rightarrow> (Returns (Inl (Inr err)), s)
                    | Returns (Inr stockData) \<Rightarrow>
                        (Returns (Inr stockData),
                         s\<lparr>cache := Cache_Set t_set (cache s) cacheKey
                                      (PtrStockData stockData) cacheDuration\<rparr>))))"

text \<open>
  A service used through \<^verbatim>\<open>GetStockData\<close> only: the state after a sequence of calls, each
  with what the client answers to it and with its two clock readings.
\<close>

fun GetStockData_calls ::
  "(string \<Rightarrow> float64 option) \<Rightarrow> Config \<Rightarrow>
   ((string \<Rightarrow> int \<Rightarrow> 'e + AlphaVantageResponse) \<times> int64 \<times> int64) list \<Rightarrow>
   ServiceState \<Rightarrow> ServiceState" where
  "GetStockData_calls ParseFloat config [] s = s"
| "GetStockData_calls ParseFloat config ((client, t_get, t_set) # calls) s =
     GetStockData_calls ParseFloat config calls
       (snd (GetStockData ParseFloat config client t_get t_set s))"

section \<open>Example payloads\<close>

text \<open>
  A configuration for the symbol AAPL with a given day count, the payload of three days
  of the specification's example, the \<^verbatim>\<open>StockData\<close> the service makes of it for two days,
  the payload with a close price that is not a number and the payload without dates of
  the tests, and the state of a service that has just been created.
\<close>

definition example_Config :: "int \<Rightarrow> Config" where
  "example_Config n = \<lparr>Port = ''8080'', APIKey = ''demo'', Config.Symbol = ''AAPL'', NDays = n\<rparr>"

definition example_Response :: AlphaVantageResponse where
  "example_Response = \<lparr>MetaData = MetaData_zero,
     TimeSeries = [(''2023-01-01'', DailyPrice_of_Close ''140.20''),
                   (''2023-01-02'', DailyPrice_of_Close ''145.50''),
                   (''2023-01-03'', DailyPrice_of_Close ''150.10'')]\<rparr>"

definition example_StockData :: StockData where
  "example_StockData = \<lparr>StockData.Symbol = ''AAPL'',
     Prices = [\<lparr>Date = ''2023-01-03'', StockPrice.Close = Finite (5281174250533683 / 35184372088832)\<rparr>,
               \<lparr>Date = ''2023-01-02'', StockPrice.Close = Finite (291 / 2)\<rparr>],
     Average = Finite (2600125097364685 / 17592186044416)\<rparr>"

definition invalid_Response :: AlphaVantageResponse where
  "invalid_Response = \<lparr>MetaData = MetaData_zero,
     TimeSeries = [(''2023-01-03'', DailyPrice_of_Close ''invalid''),
                   (''2023-01-02'', DailyPrice_of_Close ''145.50'')]\<rparr>"

definition empty_Response :: AlphaVantageResponse where
  "empty_Response = \<lparr>MetaData = MetaData_zero, TimeSeries = []\<rparr>"

definition New_ServiceState :: ServiceState where
  "New_ServiceState = \<lparr>cache = Cache_New, fetches = []\<rparr>"

section \<open>Properties of the cache\<close>

lemma sint_add_no_wrap:
  fixes a b :: int64
  assumes "- (2 ^ 63) \<le> sint a + sint b" and "sint a + sint b < 2 ^ 63"
  shows "sint (a + b) = sint a + sint b"
  using assms by (simp add: sint_word_ariths signed_take_bit_int_eq_self)

lemma sint_int64_bounds:
  fixes a :: int64
  shows "- (2 ^ 63) \<le> sint a" and "sint a < 2 ^ 63"
  using sint_ge [of a] sint_lt [of a] by simp_all

lemma Cache_Get_Set_same:
  "Cache_Get t (Cache_Set t0 c key v ttl) key =
     (if sint t \<le> sint (t0 + ttl) then (Some v, True) else (None, False))"
  by (auto simp add: Cache_Get_def Cache_Set_def Add_UnixNano_def)

lemma Cache_Get_Set_other:
  "key' \<noteq> key \<Longrightarrow> Cache_Get t (Cache_Set t0 c key v ttl) key' = Cache_Get t c key'"
  by (simp add: Cache_Get_def Cache_Set_def)

lemma Cache_Get_found_iff:
  "Cache_Get t c key = (Some v, True) \<longleftrightarrow>
     (\<exists>item. items c key = Some item \<and> Value item = v \<and> sint t \<le> sint (Expiration item))"
  by (auto simp add: Cache_Get_def split: option.splits)

lemma Cache_Get_cases:
  "Cache_Get t c key = (None, False) \<or>
     (\<exists>item. items c key = Some item \<and> Cache_Get t c key = (Some (Value item), True))"
  by (auto simp add: Cache_Get_def split: option.splits)

text \<open>
  While the expiry instant stays inside the \<^verbatim>\<open>int64\<close> range, a positive duration keeps
  the entry visible from the moment it is stored until the duration has passed.
\<close>

lemma Cache_Get_Set_within_ttl:
  assumes "sint t0 + sint ttl < 2 ^ 63" and "0 < sint ttl"
    and "sint t \<le> sint t0 + sint ttl"
  shows "Cache_Get t (Cache_Set t0 c key v ttl) key = (Some v, True)"
proof -
  have "sint (t0 + ttl) = sint t0 + sint ttl"
    using assms sint_int64_bounds [of t0] by (intro sint_add_no_wrap) linarith+
  then show ?thesis using assms by (simp add: Cache_Get_Set_same)
qed

lemma Cache_Set_overwrite_within_ttl:
  assumes "sint t2 + sint ttl < 2 ^ 63" and "0 < sint ttl"
    and "sint t \<le> sint t2 + sint ttl"
  shows "Cache_Get t (Cache_Set t2 (Cache_Set t1 c key v1 ttl) key v2 ttl) key = (Some v2, True)"
  using assms by (rule Cache_Get_Set_within_ttl)

lemma Cache_Set_Set_items:
  "items (Cache_Set t2 (Cache_Set t1 c k v1 ttl1) k v2 ttl2) = items (Cache_Set t2 c k v2 ttl2)"
  by (simp add: Cache_Set_def)

lemma Cleanup_loop_lookup:
  "Cleanup_loop now ks m key =
     (case m key of
        None \<Rightarrow> None
      | Some v \<Rightarrow> if key \<in> set ks \<and> sint now > sint (Expiration v) then None else Some v)"
proof (induction ks arbitrary: m)
  case Nil
  then show ?case by (simp split: option.splits)
next
  case (Cons k ks)
  show ?case
  proof (cases "m k")
    case None
    then show ?thesis by (simp add: Cons.IH split: option.splits)
  next
    case (Some v)
    then show ?thesis by (simp add: Cons.IH split: option.splits)
  qed
qed

text \<open>
  Claim C1, as the code has it. \<^verbatim>\<open>Get\<close> treats an entry as expired when the clock reading
  is after the stored expiry instant (\<^verbatim>\<open>now > Expiration\<close>), so an entry is visible if and
  only if it is present and the reading is not after its expiry instant: it is still
  visible at the expiry instant itself. \<^verbatim>\<open>Get\<close> has two outcomes only, \<^verbatim>\<open>(nil, false)\<close> or
  the stored value with \<^verbatim>\<open>true\<close>. \<^verbatim>\<open>Set\<close> stores the value with the expiry instant
  \<open>t0 + ttl\<close> (as an \<^verbatim>\<open>int64\<close>). With a negative duration, set at a reading after the epoch,
  the entry is absent for \<^verbatim>\<open>Get\<close> at the same and at every later reading; with duration
  zero the entry is still returned at the very reading of the \<^verbatim>\<open>Set\<close> and absent at every
  later one.
\<close>

theorem Cache_Get_visible_iff_not_after_expiry:
  "(Cache_Get t c key = (Some v, True) \<longleftrightarrow>
      (\<exists>item. items c key = Some item \<and> Value item = v \<and> sint t \<le> sint (Expiration item))) \<and>
   (Cache_Get t c key = (None, False) \<or>
      (\<exists>item. items c key = Some item \<and> Cache_Get t c key = (Some (Value item), True))) \<and>
   items (Cache_Set t0 c key v ttl) key = Some \<lparr>Value = v, Expiration = Add_UnixNano t0 ttl\<rparr> \<and>
   Cache_Get t (Cache_Set t0 c key v ttl) key =
      (if sint t \<le> sint (Add_UnixNano t0 ttl) then (Some v, True) else (None, False)) \<and>
   (0 \<le> sint t0 \<and> sint ttl < 0 \<and> sint t0 \<le> sint t \<longrightarrow>
      Cache_Get t (Cache_Set t0 c key v ttl) key = (None, False)) \<and>
   Cache_Get t0 (Cache_Set t0 c key v 0) key = (Some v, True) \<and>
   (sint t0 < sint t \<longrightarrow> Cache_Get t (Cache_Set t0 c key v 0) key = (None, False))"
proof -
  have a: "Cache_Get t c key = (Some v, True) \<longleftrightarrow>
      (\<exists>item. items c key = Some item \<and> Value item = v \<and> sint t \<le> sint (Expiration item))"
    by (rule Cache_Get_found_iff)
  have b: "Cache_Get t c key = (None, False) \<or>
      (\<exists>item. items c key = Some item \<and> Cache_Get t c key = (Some (Value item), True))"
    by (rule Cache_Get_cases)
  have c: "items (Cache_Set t0 c key v ttl) key =
      Some \<lparr>Value = v, Expiration = Add_UnixNano t0 ttl\<rparr>"
    by (simp add: Cache_Set_def)
  have d: "Cache_Get t (Cache_Set t0 c key v ttl) key =
      (if sint t \<le> sint (Add_UnixNano t0 ttl) then (Some v, True) else (None, False))"
    by (simp add: Cache_Get_Set_same Add_UnixNano_def)
  have e: "Cache_Get t (Cache_Set t0 c key v ttl) key = (None, False)"
    if "0 \<le> sint t0" "sint ttl < 0" "sint t0 \<le> sint t"
  proof -
    have "sint (t0 + ttl) = sint t0 + sint ttl"
      using that sint_int64_bounds [of ttl] sint_int64_bounds [of t0]
      by (intro sint_add_no_wrap) linarith+
    then show ?thesis using that by (simp add: Cache_Get_Set_same)
  qed
  have f: "Cache_Get t0 (Cache_Set t0 c key v 0) key = (Some v, True)"
    by (simp add: Cache_Get_Set_same)
  have g: "sint t0 < sint t \<longrightarrow> Cache_Get t (Cache_Set t0 c key v 0) key = (None, False)"
    by (simp add: Cache_Get_Set_same)
  from a b c d e f g show ?thesis by blast
qed

text \<open>
  The theorem at work: a value stored at reading 1000 with duration \<open>-5\<close> is absent at
  reading 1001, and a value stored with duration 0 is returned at 1000 and absent at 1001.
\<close>

theorem Cache_Get_visible_iff_not_after_expiry_witness:
  "0 \<le> sint (1000 :: int64) \<and> sint (- 5 :: int64) < 0 \<and> sint (1000 :: int64) < sint (1001 :: int64) \<and>
   Cache_Get 1001 (Cache_Set 1000 Cache_New ''MSFT'' (7 :: nat) (- 5)) ''MSFT'' = (None, False) \<and>
   Cache_Get 1000 (Cache_Set 1000 Cache_New ''MSFT'' (7 :: nat) 0) ''MSFT'' = (Some 7, True) \<and>
   Cache_Get 1001 (Cache_Set 1000 Cache_New ''MSFT'' (7 :: nat) 0) ''MSFT'' = (None, False)"
proof -
  have neg: "0 \<le> sint (1000 :: int64) \<and> sint (- 5 :: int64) < 0 \<and>
      sint (1000 :: int64) \<le> sint (1001 :: int64)"
    by simp
  have later: "sint (1000 :: int64) < sint (1001 :: int64)"
    by simp
  note at = Cache_Get_visible_iff_not_after_expiry
    [of 1001 "Cache_New :: nat Cache" "''MSFT''" 7 1000 "- 5"]
  from at neg
  have a: "Cache_Get 1001 (Cache_Set 1000 Cache_New ''MSFT'' (7 :: nat) (- 5)) ''MSFT'' = (None, False)"
    by blast
  from at
  have b: "Cache_Get 1000 (Cache_Set 1000 Cache_New ''MSFT'' (7 :: nat) 0) ''MSFT'' = (Some 7, True)"
    by blast
  from at later
  have c: "Cache_Get 1001 (Cache_Set 1000 Cache_New ''MSFT'' (7 :: nat) 0) ''MSFT'' = (None, False)"
    by blast
  from neg later a b c show ?thesis by blast
qed

text \<open>
  Claim C1 as the specification words it fails: with \<^verbatim>\<open>Set\<close> at reading 1000 and a duration
  of 5, a \<^verbatim>\<open>Get\<close> at reading 1005 is not strictly before the expiry instant 1005 and still
  returns the value; and with duration 0 a \<^verbatim>\<open>Get\<close> at the same reading returns the value.
\<close>

theorem Cache_Get_at_expiry_counterexample:
  "\<not> sint (1005 :: int64) < sint (Add_UnixNano 1000 5) \<and>
   Cache_Get 1005 (Cache_Set 1000 Cache_New ''MSFT'' (7 :: nat) 5) ''MSFT'' = (Some 7, True) \<and>
   Cache_Get 1000 (Cache_Set 1000 Cache_New ''MSFT'' (7 :: nat) 0) ''MSFT'' = (Some 7, True)"
  by (simp add: Cache_Get_def Cache_Set_def Cache_New_def Add_UnixNano_def)

text \<open>
  Claim C7 at a duration whose expiry instant leaves the \<^verbatim>\<open>int64\<close> range: at the clock
  reading 1793556000000000000 (1 November 2026) a \<^verbatim>\<open>Set\<close> with the largest
  \<^verbatim>\<open>time.Duration\<close>, which is positive, stores a negative expiry instant, and the \<^verbatim>\<open>Get\<close>
  at the same reading reports the key as absent.
\<close>

theorem Cache_Set_max_duration_absent:
  "0 < sint (0x7FFFFFFFFFFFFFFF :: int64) \<and>
   Expiration (the (items (Cache_Set 1793556000000000000 Cache_New ''MSFT'' (7 :: nat)
      0x7FFFFFFFFFFFFFFF) ''MSFT'')) = - 7429816036854775809 \<and>
   Cache_Get 1793556000000000000
     (Cache_Set 1793556000000000000 Cache_New ''MSFT'' (7 :: nat) 0x7FFFFFFFFFFFFFFF) ''MSFT''
     = (None, False)"
  by (simp add: Cache_Get_def Cache_Set_def Cache_New_def Add_UnixNano_def)

text \<open>
  Claim C8 at the same duration: after two \<^verbatim>\<open>Set\<close>s of the key with the largest
  \<^verbatim>\<open>time.Duration\<close>, a \<^verbatim>\<open>Get\<close> at the reading of the second \<^verbatim>\<open>Set\<close>, long before the
  duration has passed, reports the key as absent instead of returning the second value.
\<close>

theorem Cache_Set_twice_max_duration_absent:
  "0 < sint (0x7FFFFFFFFFFFFFFF :: int64) \<and>
   Cache_Get 1793556000000000001
     (Cache_Set 1793556000000000001
        (Cache_Set 1793556000000000000 Cache_New ''MSFT'' (1 :: nat) 0x7FFFFFFFFFFFFFFF)
        ''MSFT'' 2 0x7FFFFFFFFFFFFFFF) ''MSFT''
     = (None, False)"
  by (simp add: Cache_Get_def Cache_Set_def Cache_New_def Add_UnixNano_def)

text \<open>
  Claim C10. At one clock reading, \<^verbatim>\<open>Get\<close> gives for every key the same result after
  \<^verbatim>\<open>Cleanup\<close> as before it, in whatever order the sweep visits the keys; and when the sweep
  visits every key of the map, the entries it leaves are exactly those that are not
  expired at that reading, each with its value and expiry instant unchanged.
\<close>

theorem Cache_Cleanup_preserves_Get:
  "(\<forall>key. Cache_Get now (Cache_Cleanup ks now c) key = Cache_Get now c key) \<and>
   (dom (items c) \<subseteq> set ks \<longrightarrow>
      (\<forall>key. items (Cache_Cleanup ks now c) key =
         (case items c key of
            None \<Rightarrow> None
          | Some v \<Rightarrow> if sint now > sint (Expiration v) then None else Some v)))"
  by (auto simp add: Cache_Get_def Cache_Cleanup_def Cleanup_loop_lookup split: option.splits)

text \<open>
  The theorem at work on a cache of two entries, one expired at reading 2000 and one not.
\<close>

theorem Cache_Cleanup_preserves_Get_witness:
  "dom (items (Cache_Set 1000 (Cache_Set 1000 Cache_New ''IBM'' (1 :: nat) 5) ''MSFT'' 2 5000))
     \<subseteq> set [''MSFT'', ''IBM''] \<and>
   items (Cache_Cleanup [''MSFT'', ''IBM''] 2000
     (Cache_Set 1000 (Cache_Set 1000 Cache_New ''IBM'' (1 :: nat) 5) ''MSFT'' 2 5000)) ''IBM'' = None \<and>
   Cache_Get 2000 (Cache_Cleanup [''MSFT'', ''IBM''] 2000
     (Cache_Set 1000 (Cache_Set 1000 Cache_New ''IBM'' (1 :: nat) 5) ''MSFT'' 2 5000)) ''MSFT''
     = (Some 2, True)"
proof -
  let ?c = "Cache_Set 1000 (Cache_Set 1000 Cache_New ''IBM'' (1 :: nat) 5) ''MSFT'' 2 5000"
  have d: "dom (items ?c) \<subseteq> set [''MSFT'', ''IBM'']"
    by (simp add: Cache_Set_def Cache_New_def)
  have i: "items ?c ''IBM'' = Some \<lparr>Value = 1, Expiration = 1005\<rparr>"
    by (simp add: Cache_Set_def Cache_New_def Add_UnixNano_def)
  have g: "Cache_Get 2000 ?c ''MSFT'' = (Some 2, True)"
    by (simp add: Cache_Get_def Cache_Set_def Cache_New_def Add_UnixNano_def)
  from Cache_Cleanup_preserves_Get [of 2000 "[''MSFT'', ''IBM'']" ?c] d i g
  show ?thesis by simp
qed

section \<open>Properties of the \<^verbatim>\<open>float64\<close> model\<close>

text \<open>
  \<open>ilog2\<close> is the binary exponent: \<open>2^e \<le> a < 2^(e+1)\<close>.
\<close>

lemma bitlen_nonneg: "0 \<le> bitlen n"
proof (induction n rule: bitlen.induct)
  case (1 n)
  then show ?case by (subst bitlen.simps) auto
qed

lemma bitlen_pos: "0 < n \<Longrightarrow> 0 < bitlen n"
  using bitlen_nonneg [of "n div 2"] by (subst bitlen.simps) simp

lemma bitlen_bounds:
  "0 < n \<Longrightarrow> 2 ^ nat (bitlen n - 1) \<le> n \<and> n < 2 ^ nat (bitlen n)"
proof (induction n rule: bitlen.induct)
  case (1 n)
  show ?case
  proof (cases "n = 1")
    case True
    then show ?thesis by (simp add: bitlen.simps)
  next
    case False
    with 1 have h: "0 < n div 2" by simp
    with 1 have IH: "2 ^ nat (bitlen (n div 2) - 1) \<le> n div 2 \<and> n div 2 < 2 ^ nat (bitlen (n div 2))"
      by simp
    have b: "bitlen n = 1 + bitlen (n div 2)" using 1 by (subst bitlen.simps) simp
    have p: "0 < bitlen (n div 2)" using h by (rule bitlen_pos)
    have e1: "nat (bitlen n - 1) = Suc (nat (bitlen (n div 2) - 1))" using b p by simp
    have e2: "nat (bitlen n) = Suc (nat (bitlen (n div 2)))" using b p by simp
    from IH show ?thesis unfolding e1 e2 by simp linarith
  qed
qed

lemma ilog2_bounds:
  assumes "0 < a"
  shows "2 powi (ilog2 a) \<le> a \<and> a < 2 powi (ilog2 a + 1)"
proof (cases "1 \<le> a")
  case True
  then have f: "0 < \<lfloor>a\<rfloor>" by simp
  from bitlen_bounds [OF f] bitlen_pos [OF f]
  have lo: "2 ^ nat (bitlen \<lfloor>a\<rfloor> - 1) \<le> \<lfloor>a\<rfloor>" and hi: "\<lfloor>a\<rfloor> < 2 ^ nat (bitlen \<lfloor>a\<rfloor>)"
    and p: "0 < bitlen \<lfloor>a\<rfloor>"
    by simp_all
  have e: "ilog2 a = bitlen \<lfloor>a\<rfloor> - 1" using True by (simp add: ilog2_def)
  have "(2::rat) powi (ilog2 a) = of_int (2 ^ nat (bitlen \<lfloor>a\<rfloor> - 1))"
    using p by (simp add: e power_int_def)
  also have "\<dots> \<le> of_int \<lfloor>a\<rfloor>" using lo by (simp only: of_int_le_iff)
  also have "\<dots> \<le> a" by simp
  finally have l: "2 powi (ilog2 a) \<le> a" .
  have "\<lfloor>a\<rfloor> + 1 \<le> 2 ^ nat (bitlen \<lfloor>a\<rfloor>)" using hi by simp
  then have "(of_int (\<lfloor>a\<rfloor> + 1) :: rat) \<le> of_int (2 ^ nat (bitlen \<lfloor>a\<rfloor>))"
    by (simp only: of_int_le_iff)
  moreover have "a < of_int (\<lfloor>a\<rfloor> + 1)" by simp linarith
  moreover have "(2::rat) powi (ilog2 a + 1) = of_int (2 ^ nat (bitlen \<lfloor>a\<rfloor>))"
    using p by (simp add: e power_int_def)
  ultimately have "a < 2 powi (ilog2 a + 1)" by simp
  with l show ?thesis by blast
next
  case False
  with assms have a1: "a < 1" and a0: "0 < a" by simp_all
  let ?c = "\<lceil>1 / a\<rceil>"
  have big: "1 < 1 / a" using a0 a1 by simp
  then have c2: "2 \<le> ?c" by (simp add: le_ceiling_iff) 
  then have f: "0 < ?c - 1" by simp
  from bitlen_bounds [OF f] bitlen_pos [OF f]
  have lo: "2 ^ nat (bitlen (?c - 1) - 1) \<le> ?c - 1" and hi: "?c - 1 < 2 ^ nat (bitlen (?c - 1))"
    and p: "0 < bitlen (?c - 1)"
    by simp_all
  have e: "ilog2 a = - bitlen (?c - 1)" using False by (simp add: ilog2_def)
  define k where "k = nat (bitlen (?c - 1))"
  have k: "bitlen (?c - 1) = int k" and kpos: "0 < k" using p by (simp_all add: k_def)
  have lo': "2 ^ (k - 1) \<le> ?c - 1" using lo p by (simp add: k_def nat_diff_distrib)
  have hi': "?c \<le> 2 ^ k" using hi by (simp add: k_def)
  \<comment> \<open>\<open>1 / a \<le> \<lceil>1 / a\<rceil> \<le> 2 ^ k\<close>, so \<open>2 powi (- k) \<le> a\<close>\<close>
  from hi' have "(of_int ?c :: rat) \<le> of_int (2 ^ k)" by (simp only: of_int_le_iff)
  then have "(of_int ?c :: rat) \<le> 2 ^ k" by simp
  moreover have "1 / a \<le> of_int ?c" by (rule le_of_int_ceiling)
  ultimately have "1 / a \<le> 2 ^ k" by (rule order_trans [rotated])
  then have "1 \<le> 2 ^ k * a" using a0 by (simp add: field_simps)
  then have l: "2 powi (ilog2 a) \<le> a"
    by (simp add: e k power_int_minus field_simps)
  \<comment> \<open>\<open>2 ^ (k - 1) \<le> \<lceil>1 / a\<rceil> - 1 < 1 / a\<close>, so \<open>a < 2 powi (- k + 1)\<close>\<close>
  from lo' have "(of_int (2 ^ (k - 1)) :: rat) \<le> of_int (?c - 1)" by (simp only: of_int_le_iff)
  then have "(2::rat) ^ (k - 1) \<le> of_int (?c - 1)" by simp
  moreover have "(of_int (?c - 1) :: rat) < 1 / a"
  proof -
    have "?c - 1 < ?c" by simp
    then have "of_int (?c - 1) < 1 / a" by (simp only: less_ceiling_iff)
    then show ?thesis .
  qed
  ultimately have "2 ^ (k - 1) < 1 / a" by (rule order_le_less_trans)
  then have "a < 1 / 2 ^ (k - 1)" using a0 by (simp add: field_simps)
  moreover have "(2::rat) powi (ilog2 a + 1) = 1 / 2 ^ (k - 1)"
  proof -
    have "ilog2 a + 1 = - int (k - 1)" using kpos by (simp add: e k)
    then show ?thesis by (simp add: power_int_minus field_simps)
  qed
  ultimately have "a < 2 powi (ilog2 a + 1)" by (simp only:)
  with l show ?thesis by blast
qed

text \<open>
  Rounding: a finite result of \<open>round64\<close> is an integer of at most 53 bits times the power
  of two of its binade, and differs from the exact value by at most half a unit in the
  last place.
\<close>

lemma round_half_even_error:
  "\<bar>of_int (round_half_even z) - z\<bar> \<le> 1 / 2"
proof -
  define r where "r = z - of_int \<lfloor>z\<rfloor>"
  have r: "0 \<le> r" "r < 1" unfolding r_def by linarith+
  have z: "z = of_int \<lfloor>z\<rfloor> + r" by (simp add: r_def)
  have "round_half_even z = \<lfloor>z\<rfloor> \<and> r \<le> 1 / 2 \<or> round_half_even z = \<lfloor>z\<rfloor> + 1 \<and> 1 / 2 \<le> r"
    unfolding round_half_even_def Let_def r_def [symmetric] by auto
  then show ?thesis
  proof
    assume a: "round_half_even z = \<lfloor>z\<rfloor> \<and> r \<le> 1 / 2"
    then have "of_int (round_half_even z) - z = - r" using z by simp
    with a r show ?thesis by simp
  next
    assume a: "round_half_even z = \<lfloor>z\<rfloor> + 1 \<and> 1 / 2 \<le> r"
    then have "of_int (round_half_even z) - z = 1 - r" using z by simp
    with a r show ?thesis by simp
  qed
qed

lemma round64_Finite:
  assumes "round64 x = Finite y"
  shows "\<exists>m. y = of_int m * 2 powi (max (ilog2 \<bar>x\<bar>) (- 1022) - 52) \<and> \<bar>m\<bar> \<le> 2 ^ 53 \<and>
             \<bar>y - x\<bar> \<le> 2 powi (max (ilog2 \<bar>x\<bar>) (- 1022) - 53)"
proof (cases "x = 0")
  case True
  with assms have "y = 0" by (simp add: round64_def)
  with True show ?thesis by (intro exI [of _ 0]) simp
next
  case False
  define e where "e = max (ilog2 \<bar>x\<bar>) (- 1022)"
  define q :: rat where "q = 2 powi (e - 52)"
  define m where "m = round_half_even (\<bar>x\<bar> / q)"
  have qpos: "0 < q" by (simp add: q_def)
  have half: "q / 2 = 2 powi (e - 53)"
  proof -
    have "(2::rat) powi ((e - 53) + 1) = 2 powi (e - 53) * 2 powi 1"
      by (rule power_int_add) simp
    then show ?thesis by (simp add: q_def)
  qed
  have err: "\<bar>of_int m * q - \<bar>x\<bar>\<bar> \<le> q / 2"
  proof -
    have "\<bar>of_int m - \<bar>x\<bar> / q\<bar> \<le> 1 / 2" unfolding m_def by (rule round_half_even_error)
    then have "\<bar>of_int m - \<bar>x\<bar> / q\<bar> * q \<le> 1 / 2 * q" using qpos by (simp only: mult_le_cancel_right_pos)
    moreover have "\<bar>of_int m - \<bar>x\<bar> / q\<bar> * q = \<bar>of_int m * q - \<bar>x\<bar>\<bar>"
    proof -
      have "\<bar>of_int m - \<bar>x\<bar> / q\<bar> * q = \<bar>(of_int m - \<bar>x\<bar> / q) * q\<bar>"
        using qpos by (simp add: abs_mult)
      also have "(of_int m - \<bar>x\<bar> / q) * q = of_int m * q - \<bar>x\<bar>"
        using qpos by (simp add: field_simps)
      finally show ?thesis .
    qed
    ultimately show ?thesis by simp
  qed
  have up: "\<bar>x\<bar> / q < 2 ^ 53"
  proof -
    from False have "0 < \<bar>x\<bar>" by simp
    from ilog2_bounds [OF this] have "\<bar>x\<bar> < 2 powi (ilog2 \<bar>x\<bar> + 1)" by simp
    also have "\<dots> \<le> 2 powi (e + 1)" by (rule power_int_increasing) (simp_all add: e_def)
    also have "\<dots> = q * 2 ^ 53"
    proof -
      have "(2::rat) powi ((e - 52) + 53) = 2 powi (e - 52) * 2 powi 53"
        by (rule power_int_add) simp
      then show ?thesis by (simp add: q_def add.commute)
    qed
    finally show ?thesis using qpos by (simp add: field_simps)
  qed
  have mb: "0 \<le> m \<and> m \<le> 2 ^ 53"
  proof -
    have "0 \<le> \<bar>x\<bar> / q" using qpos by simp
    then have "0 \<le> \<lfloor>\<bar>x\<bar> / q\<rfloor>" by simp
    moreover have "\<lfloor>\<bar>x\<bar> / q\<rfloor> < 2 ^ 53" using up by (simp add: floor_less_iff)
    ultimately show ?thesis
      by (auto simp add: m_def round_half_even_def Let_def)
  qed
  from assms False have y: "y = (if 0 < x then of_int m * q else - (of_int m * q))"
    by (auto simp add: round64_def Let_def e_def q_def m_def split: if_splits)
  show ?thesis
  proof (cases "0 < x")
    case True
    with y err half mb show ?thesis
      by (intro exI [of _ m]) (simp add: e_def q_def)
  next
    case neg: False
    with False have xn: "x < 0" by simp
    from err have "\<bar>- (of_int m * q) - x\<bar> \<le> q / 2" using xn by (simp add: abs_if split: if_splits)
    with y neg half mb show ?thesis
      by (intro exI [of _ "- m"]) (simp add: e_def q_def)
  qed
qed

text \<open>
  The model on decimal fractions and at ties: the known binary64 values of 0.1, 0.2 and
  0.3, the sum 0.1 + 0.2, which is not the binary64 value of 0.3 but the next one, and
  the conversion of \<open>2^53 + 1\<close> and \<open>2^53 + 3\<close>, halfway between two values.
\<close>

lemma floor_rat_numeral:
  "\<lfloor>numeral a / numeral b :: rat\<rfloor> = numeral a div numeral b"
  using floor_divide_of_int_eq [of "numeral a" "numeral b", where ?'a = rat] by simp

lemma ceiling_rat_numeral:
  "\<lceil>numeral a / numeral b :: rat\<rceil> = - ((- numeral a) div numeral b)"
  using ceiling_divide_eq_div [of "numeral a" "numeral b", where ?'a = rat] by simp

lemma round64_one_tenth:
  "round64 (1 / 10) = Finite (3602879701896397 / 36028797018963968)"
  apply (simp add: round64_def Let_def)
  apply (simp add: ilog2_def ceiling_rat_numeral bitlen.simps)
  apply (simp add: round_half_even_def Let_def floor_rat_numeral power_int_minus)
  done

lemma round64_two_tenths:
  "round64 (2 / 10) = Finite (3602879701896397 / 18014398509481984)"
  apply (simp add: round64_def Let_def)
  apply (simp add: ilog2_def ceiling_rat_numeral bitlen.simps)
  apply (simp add: round_half_even_def Let_def floor_rat_numeral power_int_minus)
  done

lemma round64_three_tenths:
  "round64 (3 / 10) = Finite (5404319552844595 / 18014398509481984)"
  apply (simp add: round64_def Let_def)
  apply (simp add: ilog2_def ceiling_rat_numeral bitlen.simps)
  apply (simp add: round_half_even_def Let_def floor_rat_numeral power_int_minus)
  done

lemma fadd_one_tenth_two_tenths:
  "fadd (Finite (3602879701896397 / 36028797018963968)) (Finite (3602879701896397 / 18014398509481984))
     = Finite (1351079888211149 / 4503599627370496)"
  apply (simp add: round64_def Let_def)
  apply (simp add: ilog2_def ceiling_rat_numeral bitlen.simps)
  apply (simp add: round_half_even_def Let_def floor_rat_numeral power_int_minus)
  done

lemma float64_of_int_ties_to_even:
  "float64_of_int (2 ^ 53 + 1) = Finite (2 ^ 53)" "float64_of_int (2 ^ 53 + 3) = Finite (2 ^ 53 + 4)"
  apply (simp_all add: float64_of_int_def round64_def Let_def)
  apply (simp_all add: ilog2_def bitlen.simps)
  apply (simp_all add: round_half_even_def Let_def floor_rat_numeral power_int_minus)
  done

lemma fadd_one_tenth_two_tenths_not_three_tenths:
  "fadd (Finite (3602879701896397 / 36028797018963968)) (Finite (3602879701896397 / 18014398509481984))
     \<noteq> Finite (5404319552844595 / 18014398509481984)"
  by (simp only: fadd_one_tenth_two_tenths) simp

text \<open>The values of the example payload.\<close>

lemma round64_150_10: "round64 (1501 / 10) = Finite (5281174250533683 / 35184372088832)"
  apply (simp add: round64_def Let_def)
  apply (simp add: ilog2_def floor_rat_numeral bitlen.simps)
  apply (simp add: round_half_even_def Let_def floor_rat_numeral power_int_minus)
  done

lemma round64_145_50: "round64 (291 / 2) = Finite (291 / 2)"
  apply (simp add: round64_def Let_def)
  apply (simp add: ilog2_def floor_rat_numeral bitlen.simps)
  apply (simp add: round_half_even_def Let_def floor_rat_numeral power_int_minus)
  done

lemma round64_147_80: "round64 (739 / 5) = Finite (2600125097364685 / 17592186044416)"
  apply (simp add: round64_def Let_def)
  apply (simp add: ilog2_def floor_rat_numeral bitlen.simps)
  apply (simp add: round_half_even_def Let_def floor_rat_numeral power_int_minus)
  done

lemma round64_2: "round64 2 = Finite 2"
  apply (simp add: round64_def Let_def)
  apply (simp add: ilog2_def bitlen.simps)
  apply (simp add: round_half_even_def Let_def power_int_minus)
  done

lemma fadd_zero_150_10:
  "fadd (Finite 0) (Finite (5281174250533683 / 35184372088832)) =
     Finite (5281174250533683 / 35184372088832)"
  apply (simp add: round64_def Let_def)
  apply (simp add: ilog2_def floor_rat_numeral bitlen.simps)
  apply (simp add: round_half_even_def Let_def floor_rat_numeral power_int_minus)
  done

lemma fadd_150_10_145_50:
  "fadd (Finite (5281174250533683 / 35184372088832)) (Finite (291 / 2)) =
     Finite (2600125097364685 / 8796093022208)"
  apply (simp add: round64_def Let_def)
  apply (simp add: ilog2_def floor_rat_numeral bitlen.simps)
  apply (simp add: round_half_even_def Let_def floor_rat_numeral power_int_minus)
  done

lemma fdiv_295_60_by_2:
  "fdiv (Finite (2600125097364685 / 8796093022208)) (float64_of_int 2) =
     Finite (2600125097364685 / 17592186044416)"
  apply (simp add: fdiv_def float64_of_int_def round64_2)
  apply (simp add: round64_def Let_def)
  apply (simp add: ilog2_def floor_rat_numeral bitlen.simps)
  apply (simp add: round_half_even_def Let_def floor_rat_numeral power_int_minus)
  done

lemma round64_140_20: "round64 (701 / 5) = Finite (2466424483427123 / 17592186044416)"
  apply (simp add: round64_def Let_def)
  apply (simp add: ilog2_def floor_rat_numeral bitlen.simps)
  apply (simp add: round_half_even_def Let_def floor_rat_numeral power_int_minus)
  done

section \<open>Properties of the stock service\<close>

lemma sorted_wrt_take_desc:
  "sorted_wrt P xs \<Longrightarrow> sorted_wrt P (take n xs)"
  by (induction xs arbitrary: n) (auto simp add: take_Cons' dest: in_set_takeD)

lemma sort_Reverse_StringSlice_sorted:
  "sorted_wrt (\<lambda>a b. b \<le> a) (sort_Reverse_StringSlice dates)"
  by (simp add: sort_Reverse_StringSlice_def sorted_wrt_rev)

lemma sort_Reverse_StringSlice_strict:
  "distinct dates \<Longrightarrow> sorted_wrt (\<lambda>a b. b < a) (sort_Reverse_StringSlice dates)"
  by (simp add: sort_Reverse_StringSlice_def sorted_wrt_rev strict_sorted_iff)

lemma sort_Reverse_StringSlice_length [simp]:
  "length (sort_Reverse_StringSlice dates) = length dates"
  by (simp add: sort_Reverse_StringSlice_def)

lemma sort_Reverse_StringSlice_set [simp]:
  "set (sort_Reverse_StringSlice dates) = set dates"
  by (simp add: sort_Reverse_StringSlice_def)

lemma process_dates_Inr:
  "process_dates pf ts dates prices tot = Inr (prices', tot') \<Longrightarrow>
     map Date prices' = map Date prices @ dates \<and>
     (\<forall>date\<in>set dates. pf (DailyPrice.Close (TimeSeries_index ts date)) \<noteq> None)"
  by (induction dates arbitrary: prices tot) (auto simp add: Let_def split: option.splits)

lemma process_dates_Inl:
  "process_dates pf ts dates prices tot = Inl date \<Longrightarrow>
     date \<in> set dates \<and> pf (DailyPrice.Close (TimeSeries_index ts date)) = None"
  by (induction dates arbitrary: prices tot) (auto simp add: Let_def split: option.splits)

lemma process_dates_fails:
  assumes "date \<in> set dates" and "pf (DailyPrice.Close (TimeSeries_index ts date)) = None"
  shows "\<exists>date'. process_dates pf ts dates prices tot = Inl date'"
proof (cases "process_dates pf ts dates prices tot")
  case (Inl a)
  then show ?thesis by blast
next
  case (Inr b)
  then obtain prices' tot' where "process_dates pf ts dates prices tot = Inr (prices', tot')"
    by (cases b) auto
  from process_dates_Inr [OF this] assms show ?thesis by blast
qed

lemma process_dates_succeeds:
  assumes "\<forall>date\<in>set dates. pf (DailyPrice.Close (TimeSeries_index ts date)) \<noteq> None"
  shows "\<exists>prices' tot'. process_dates pf ts dates prices tot = Inr (prices', tot')"
proof (cases "process_dates pf ts dates prices tot")
  case (Inl a)
  from process_dates_Inl [OF this] assms show ?thesis by blast
next
  case (Inr b)
  then show ?thesis by (cases b) auto
qed

lemma processAPIResponse_negative:
  "NDays config < 0 \<Longrightarrow>
     processAPIResponse pf config apiResponse = Panics (SliceBoundsOutOfRange (NDays config))"
  by (simp add: processAPIResponse_def slice_upto_def Let_def)

lemma processAPIResponse_nonneg:
  assumes "0 \<le> NDays config"
  shows "processAPIResponse pf config apiResponse =
     (case process_dates pf (TimeSeries apiResponse)
             (take (nat (NDays config)) (sort_Reverse_StringSlice (map fst (TimeSeries apiResponse))))
             [] (Finite 0) of
        Inl date \<Rightarrow> Returns (Inl (ErrParseClose date))
      | Inr (prices, totalClose) \<Rightarrow>
          if length prices = 0
          then Returns (Inl (ErrNoPriceData (Config.Symbol config)))
          else Returns (Inr \<lparr>StockData.Symbol = Config.Symbol config, Prices = prices,
                 Average = fdiv totalClose (float64_of_int (int (length prices)))\<rparr>))"
proof -
  let ?dates = "sort_Reverse_StringSlice (map fst (TimeSeries apiResponse))"
  have "(if int (length ?dates) > NDays config then slice_upto ?dates (NDays config) else Inr ?dates)
      = Inr (take (nat (NDays config)) ?dates)"
    using assms by (simp add: slice_upto_def)
  then show ?thesis
    by (simp add: processAPIResponse_def Let_def split: sum.splits prod.splits)
qed

lemma processAPIResponse_Returns_Inr:
  assumes "processAPIResponse pf config apiResponse = Returns (Inr d)"
  shows "0 \<le> NDays config"
    and "map Date (Prices d) =
           take (nat (NDays config)) (sort_Reverse_StringSlice (map fst (TimeSeries apiResponse)))"
    and "Prices d \<noteq> []"
    and "StockData.Symbol d = Config.Symbol config"
    and "\<forall>date\<in>set (map Date (Prices d)).
           pf (DailyPrice.Close (TimeSeries_index (TimeSeries apiResponse) date)) \<noteq> None"
proof -
  show nn: "0 \<le> NDays config"
  proof (rule ccontr)
    assume "\<not> 0 \<le> NDays config"
    then have "NDays config < 0" by simp
    with assms show False by (simp add: processAPIResponse_negative)
  qed
  let ?dates = "take (nat (NDays config)) (sort_Reverse_StringSlice (map fst (TimeSeries apiResponse)))"
  from assms obtain prices tot where
    pd: "process_dates pf (TimeSeries apiResponse) ?dates [] (Finite 0) = Inr (prices, tot)"
    and ne: "length prices \<noteq> 0"
    and d: "d = \<lparr>StockData.Symbol = Config.Symbol config, Prices = prices,
                 Average = fdiv tot (float64_of_int (int (length prices)))\<rparr>"
    unfolding processAPIResponse_nonneg [OF nn]
    by (auto split: sum.splits if_splits)
  from process_dates_Inr [OF pd] have m: "map Date prices = ?dates"
    and p: "\<forall>date\<in>set ?dates. pf (DailyPrice.Close (TimeSeries_index (TimeSeries apiResponse) date)) \<noteq> None"
    by simp_all
  show "map Date (Prices d) = ?dates" using m d by simp
  show "Prices d \<noteq> []" using ne d by simp
  show "StockData.Symbol d = Config.Symbol config" using d by simp
  show "\<forall>date\<in>set (map Date (Prices d)).
           pf (DailyPrice.Close (TimeSeries_index (TimeSeries apiResponse) date)) \<noteq> None"
    using p m d by simp
qed


lemma ParseFloat_decimal_150_10:
  "ParseFloat_decimal ''150.10'' = Some (Finite (5281174250533683 / 35184372088832))"
  by (simp add: ParseFloat_decimal_def is_digit_def digit_value_def Let_def round64_150_10)

lemma ParseFloat_decimal_145_50:
  "ParseFloat_decimal ''145.50'' = Some (Finite (291 / 2))"
  by (simp add: ParseFloat_decimal_def is_digit_def digit_value_def Let_def round64_145_50)

lemma ParseFloat_decimal_invalid:
  "ParseFloat_decimal ''invalid'' = None"
  by (simp add: ParseFloat_decimal_def is_digit_def)

lemma sorted_example: "sort_Reverse_StringSlice [''2023-01-01'', ''2023-01-02'', ''2023-01-03'']
   = [''2023-01-03'', ''2023-01-02'', ''2023-01-01'']"
  by (simp add: sort_Reverse_StringSlice_def)

lemma processAPIResponse_example:
  "processAPIResponse ParseFloat_decimal (example_Config 2) example_Response
     = Returns (Inr example_StockData)"
  by (simp add: processAPIResponse_def slice_upto_def example_Config_def example_Response_def
      example_StockData_def sorted_example TimeSeries_index_def DailyPrice_of_Close_def
      ParseFloat_decimal_150_10 ParseFloat_decimal_145_50
      fadd_zero_150_10 fadd_150_10_145_50 fdiv_295_60_by_2 del: fadd.simps)

lemma ParseFloat_decimal_140_20:
  "ParseFloat_decimal ''140.20'' = Some (Finite (2466424483427123 / 17592186044416))"
  by (simp add: ParseFloat_decimal_def is_digit_def digit_value_def Let_def round64_140_20)

text \<open>
  Claim C3. Whenever \<^verbatim>\<open>processAPIResponse\<close> succeeds, the dates of the returned prices are
  the first \<open>NDays\<close> of the payload's dates taken in descending order of the strings: they
  are sorted in descending order (strictly so when each date occurs once, as in a map),
  their number is the minimum of the day count and the number of dates of the payload, and
  there is at least one. When the payload has dates, no more of them than the day count,
  and every close price parses, the transform succeeds and keeps all of them. When no
  date is retained (the day count is zero or the payload has no dates), the transform
  fails with the error "no price data".
\<close>

theorem processAPIResponse_sorted_truncated:
  "(\<forall>d. processAPIResponse pf config apiResponse = Returns (Inr d) \<longrightarrow>
      map Date (Prices d) =
        take (nat (NDays config)) (sort_Reverse_StringSlice (map fst (TimeSeries apiResponse))) \<and>
      sorted_wrt (\<lambda>a b. b \<le> a) (map Date (Prices d)) \<and>
      (distinct (map fst (TimeSeries apiResponse)) \<longrightarrow>
         sorted_wrt (\<lambda>a b. b < a) (map Date (Prices d))) \<and>
      int (length (Prices d)) = min (NDays config) (int (length (TimeSeries apiResponse))) \<and>
      Prices d \<noteq> []) \<and>
   (TimeSeries apiResponse \<noteq> [] \<and> int (length (TimeSeries apiResponse)) \<le> NDays config \<and>
    (\<forall>date\<in>set (map fst (TimeSeries apiResponse)).
       pf (DailyPrice.Close (TimeSeries_index (TimeSeries apiResponse) date)) \<noteq> None) \<longrightarrow>
      (\<exists>d. processAPIResponse pf config apiResponse = Returns (Inr d) \<and>
           map Date (Prices d) = sort_Reverse_StringSlice (map fst (TimeSeries apiResponse)) \<and>
           length (Prices d) = length (TimeSeries apiResponse))) \<and>
   (min (NDays config) (int (length (TimeSeries apiResponse))) = 0 \<longrightarrow>
      processAPIResponse pf config apiResponse =
        Returns (Inl (ErrNoPriceData (Config.Symbol config))))"
proof (intro conjI allI impI)
  fix d
  assume ok: "processAPIResponse pf config apiResponse = Returns (Inr d)"
  let ?sorted = "sort_Reverse_StringSlice (map fst (TimeSeries apiResponse))"
  note r = processAPIResponse_Returns_Inr [OF ok]
  show m: "map Date (Prices d) = take (nat (NDays config)) ?sorted"
    by (rule r(2))
  show "sorted_wrt (\<lambda>a b. b \<le> a) (map Date (Prices d))"
    unfolding m by (intro sorted_wrt_take_desc sort_Reverse_StringSlice_sorted)
  show "sorted_wrt (\<lambda>a b. b < a) (map Date (Prices d))"
    if "distinct (map fst (TimeSeries apiResponse))"
    unfolding m using that by (intro sorted_wrt_take_desc sort_Reverse_StringSlice_strict)
  have "length (map Date (Prices d)) = length (take (nat (NDays config)) ?sorted)"
    by (simp only: m)
  then show "int (length (Prices d)) = min (NDays config) (int (length (TimeSeries apiResponse)))"
    using r(1) by simp
  show "Prices d \<noteq> []" by (rule r(3))
next
  assume a: "TimeSeries apiResponse \<noteq> [] \<and>
    int (length (TimeSeries apiResponse)) \<le> NDays config \<and>
    (\<forall>date\<in>set (map fst (TimeSeries apiResponse)).
       pf (DailyPrice.Close (TimeSeries_index (TimeSeries apiResponse) date)) \<noteq> None)"
  let ?sorted = "sort_Reverse_StringSlice (map fst (TimeSeries apiResponse))"
  from a have nn: "0 \<le> NDays config" by linarith
  from a have "length (TimeSeries apiResponse) \<le> nat (NDays config)" by linarith
  then have t: "take (nat (NDays config)) ?sorted = ?sorted" by simp
  from a have "\<forall>date\<in>set ?sorted.
      pf (DailyPrice.Close (TimeSeries_index (TimeSeries apiResponse) date)) \<noteq> None"
    by simp
  from process_dates_succeeds [OF this] obtain prices tot where
    pd: "process_dates pf (TimeSeries apiResponse) ?sorted [] (Finite 0) = Inr (prices, tot)"
    by blast
  from process_dates_Inr [OF pd] have m: "map Date prices = ?sorted" by simp
  then have "length (map Date prices) = length ?sorted" by (simp only:)
  then have l: "length prices = length (TimeSeries apiResponse)" by simp
  with a have ne: "prices \<noteq> []" by auto
  show "\<exists>d. processAPIResponse pf config apiResponse = Returns (Inr d) \<and>
           map Date (Prices d) = ?sorted \<and>
           length (Prices d) = length (TimeSeries apiResponse)"
    unfolding processAPIResponse_nonneg [OF nn] t using pd m l ne by simp
next
  assume z: "min (NDays config) (int (length (TimeSeries apiResponse))) = 0"
  let ?dates = "take (nat (NDays config)) (sort_Reverse_StringSlice (map fst (TimeSeries apiResponse)))"
  from z have nn: "0 \<le> NDays config" by linarith
  from z have "NDays config = 0 \<or> TimeSeries apiResponse = []"
    by (auto simp add: min_def split: if_splits)
  then have e: "?dates = []" by (auto simp add: sort_Reverse_StringSlice_def)
  show "processAPIResponse pf config apiResponse =
        Returns (Inl (ErrNoPriceData (Config.Symbol config)))"
    unfolding processAPIResponse_nonneg [OF nn] e by simp
qed

text \<open>
  The theorem at work on the payload of three days, whose dates are distinct: with two
  days asked for, the transform succeeds and the result has two prices in strictly
  descending order; with five days asked for, all three dates are kept; with zero days
  asked for, the transform fails.
\<close>

theorem processAPIResponse_sorted_truncated_witness:
  "processAPIResponse ParseFloat_decimal (example_Config 2) example_Response
     = Returns (Inr example_StockData) \<and>
   distinct (map fst (TimeSeries example_Response)) \<and>
   sorted_wrt (\<lambda>a b. b < a) (map Date (Prices example_StockData)) \<and>
   int (length (Prices example_StockData)) = min 2 3 \<and>
   TimeSeries example_Response \<noteq> [] \<and>
   int (length (TimeSeries example_Response)) \<le> NDays (example_Config 5) \<and>
   (\<exists>d. processAPIResponse ParseFloat_decimal (example_Config 5) example_Response = Returns (Inr d) \<and>
        map Date (Prices d) = [''2023-01-03'', ''2023-01-02'', ''2023-01-01''] \<and>
        length (Prices d) = 3) \<and>
   min (NDays (example_Config 0)) (int (length (TimeSeries example_Response))) = 0 \<and>
   processAPIResponse ParseFloat_decimal (example_Config 0) example_Response
     = Returns (Inl (ErrNoPriceData ''AAPL''))"
proof -
  note two = processAPIResponse_sorted_truncated
    [of ParseFloat_decimal "example_Config 2" example_Response]
  note five = processAPIResponse_sorted_truncated
    [of ParseFloat_decimal "example_Config 5" example_Response]
  note zero = processAPIResponse_sorted_truncated
    [of ParseFloat_decimal "example_Config 0" example_Response]
  have ok: "processAPIResponse ParseFloat_decimal (example_Config 2) example_Response
      = Returns (Inr example_StockData)"
    by (rule processAPIResponse_example)
  have dist: "distinct (map fst (TimeSeries example_Response))"
    by (simp add: example_Response_def)
  have a: "sorted_wrt (\<lambda>a b. b < a) (map Date (Prices example_StockData)) \<and>
      int (length (Prices example_StockData)) = min 2 3"
  proof -
    from two ok dist
    have "sorted_wrt (\<lambda>a b. b < a) (map Date (Prices example_StockData)) \<and>
      int (length (Prices example_StockData)) =
        min (NDays (example_Config 2)) (int (length (TimeSeries example_Response)))"
      by blast
    then show ?thesis by (simp add: example_Config_def example_Response_def)
  qed
  have few: "TimeSeries example_Response \<noteq> [] \<and>
      int (length (TimeSeries example_Response)) \<le> NDays (example_Config 5)"
    by (simp add: example_Config_def example_Response_def)
  have parse: "\<forall>date\<in>set (map fst (TimeSeries example_Response)).
      ParseFloat_decimal (DailyPrice.Close (TimeSeries_index (TimeSeries example_Response) date))
        \<noteq> None"
    by (simp add: example_Response_def TimeSeries_index_def
        DailyPrice_of_Close_def ParseFloat_decimal_150_10 ParseFloat_decimal_145_50
        ParseFloat_decimal_140_20)
  from five few parse
  have b: "\<exists>d. processAPIResponse ParseFloat_decimal (example_Config 5) example_Response
        = Returns (Inr d) \<and>
      map Date (Prices d) = sort_Reverse_StringSlice (map fst (TimeSeries example_Response)) \<and>
      length (Prices d) = length (TimeSeries example_Response)"
    by blast
  have none: "min (NDays (example_Config 0)) (int (length (TimeSeries example_Response))) = 0"
    by (simp add: example_Config_def)
  from zero none
  have c: "processAPIResponse ParseFloat_decimal (example_Config 0) example_Response
     = Returns (Inl (ErrNoPriceData (Config.Symbol (example_Config 0))))"
    by blast
  from ok dist a few b none c show ?thesis
    by (simp add: example_Response_def example_Config_def sorted_example numeral_3_eq_3)
qed

lemma GetStockData_hit:
  "Cache_Get t_get (cache s) (Config.Symbol config) = (Some (PtrStockData d), True) \<Longrightarrow>
     GetStockData pf config client t_get t_set s = (Returns (Inr d), s)"
  by (simp add: GetStockData_def)

lemma GetStockData_miss:
  assumes "\<not> snd (Cache_Get t_get (cache s) (Config.Symbol config))"
  shows "GetStockData pf config client t_get t_set s =
     (let s1 = s\<lparr>fetches := fetches s @ [(Config.Symbol config, NDays config)]\<rparr>
      in case client (Config.Symbol config) (NDays config) of
           Inl err \<Rightarrow> (Returns (Inl (Inl err)), s1)
         | Inr apiResponse \<Rightarrow>
             (case processAPIResponse pf config apiResponse of
                Panics p \<Rightarrow> (Panics p, s1)
              | Returns (Inl err) \<Rightarrow> (Returns (Inl (Inr err)), s1)
              | Returns (Inr stockData) \<Rightarrow>
                  (Returns (Inr stockData),
                   s1\<lparr>cache := Cache_Set t_set (cache s) (Config.Symbol config)
                                  (PtrStockData stockData) cacheDuration\<rparr>)))"
  using assms
  by (cases "Cache_Get t_get (cache s) (Config.Symbol config)")
     (simp add: GetStockData_def Let_def split: sum.splits outcome.splits)

lemma GetStockData_failure_cache:
  assumes "GetStockData pf config client t_get t_set s = (r, s')"
    and "\<forall>d. r \<noteq> Returns (Inr d)"
  shows "cache s' = cache s"
proof (cases "snd (Cache_Get t_get (cache s) (Config.Symbol config))")
  case True
  then show ?thesis
    using assms
    by (cases "Cache_Get t_get (cache s) (Config.Symbol config)")
       (auto simp add: GetStockData_def split: option.splits iface.splits)
next
  case False
  show ?thesis
    using assms unfolding GetStockData_miss [OF False]
    by (auto simp add: Let_def split: sum.splits outcome.splits)
qed

lemma GetStockData_success_cases:
  assumes "GetStockData pf config client t_get t_set s = (Returns (Inr d), s')"
  shows "(Cache_Get t_get (cache s) (Config.Symbol config) = (Some (PtrStockData d), True) \<and> s' = s) \<or>
     (\<exists>apiResponse.
        \<not> snd (Cache_Get t_get (cache s) (Config.Symbol config)) \<and>
        client (Config.Symbol config) (NDays config) = Inr apiResponse \<and>
        processAPIResponse pf config apiResponse = Returns (Inr d) \<and>
        s' = s\<lparr>fetches := fetches s @ [(Config.Symbol config, NDays config)],
                cache := Cache_Set t_set (cache s) (Config.Symbol config)
                           (PtrStockData d) cacheDuration\<rparr>)"
proof (cases "snd (Cache_Get t_get (cache s) (Config.Symbol config))")
  case True
  then have "Cache_Get t_get (cache s) (Config.Symbol config) = (Some (PtrStockData d), True) \<and> s' = s"
    using assms
    by (cases "Cache_Get t_get (cache s) (Config.Symbol config)")
       (auto simp add: GetStockData_def split: option.splits iface.splits)
  then show ?thesis by blast
next
  case False
  have "\<exists>apiResponse.
        client (Config.Symbol config) (NDays config) = Inr apiResponse \<and>
        processAPIResponse pf config apiResponse = Returns (Inr d) \<and>
        s' = s\<lparr>fetches := fetches s @ [(Config.Symbol config, NDays config)],
                cache := Cache_Set t_set (cache s) (Config.Symbol config)
                           (PtrStockData d) cacheDuration\<rparr>"
    using assms unfolding GetStockData_miss [OF False]
    by (auto simp add: Let_def split: sum.splits outcome.splits)
  with False show ?thesis by blast
qed

text \<open>
  Claim C4. A call of \<^verbatim>\<open>GetStockData\<close> that does not return a \<^verbatim>\<open>StockData\<close> leaves the cache as
  it was. On a miss, an error of the client is returned as it is; when the close price of
  a retained date does not parse, the call fails with the parse error of such a date
  (the day count being non-negative, so that there are retained dates); and when no date
  is retained the call fails with the error "no price data". In each of these cases only
  the record of the calls made to the client changes.
\<close>

theorem GetStockData_failure_atomic:
  "(\<forall>r s'. GetStockData pf config client t_get t_set s = (r, s') \<and> (\<forall>d. r \<noteq> Returns (Inr d)) \<longrightarrow>
      cache s' = cache s) \<and>
   (\<not> snd (Cache_Get t_get (cache s) (Config.Symbol config)) \<longrightarrow>
      (\<forall>e. client (Config.Symbol config) (NDays config) = Inl e \<longrightarrow>
         GetStockData pf config client t_get t_set s =
           (Returns (Inl (Inl e)),
            s\<lparr>fetches := fetches s @ [(Config.Symbol config, NDays config)]\<rparr>)) \<and>
      (\<forall>apiResponse. client (Config.Symbol config) (NDays config) = Inr apiResponse \<longrightarrow>
         (0 \<le> NDays config \<and>
          (\<exists>date\<in>set (take (nat (NDays config))
                 (sort_Reverse_StringSlice (map fst (TimeSeries apiResponse)))).
             pf (DailyPrice.Close (TimeSeries_index (TimeSeries apiResponse) date)) = None) \<longrightarrow>
            (\<exists>date. GetStockData pf config client t_get t_set s =
               (Returns (Inl (Inr (ErrParseClose date))),
                s\<lparr>fetches := fetches s @ [(Config.Symbol config, NDays config)]\<rparr>) \<and>
               pf (DailyPrice.Close (TimeSeries_index (TimeSeries apiResponse) date)) = None)) \<and>
         (min (NDays config) (int (length (TimeSeries apiResponse))) = 0 \<longrightarrow>
            GetStockData pf config client t_get t_set s =
              (Returns (Inl (Inr (ErrNoPriceData (Config.Symbol config)))),
               s\<lparr>fetches := fetches s @ [(Config.Symbol config, NDays config)]\<rparr>))))"
proof (intro conjI allI impI)
  fix r s'
  assume "GetStockData pf config client t_get t_set s = (r, s') \<and> (\<forall>d. r \<noteq> Returns (Inr d))"
  then show "cache s' = cache s"
    using GetStockData_failure_cache [of pf config client t_get t_set s r s'] by blast
next
  fix e
  assume "\<not> snd (Cache_Get t_get (cache s) (Config.Symbol config))"
    and "client (Config.Symbol config) (NDays config) = Inl e"
  then show "GetStockData pf config client t_get t_set s =
           (Returns (Inl (Inl e)),
            s\<lparr>fetches := fetches s @ [(Config.Symbol config, NDays config)]\<rparr>)"
    by (simp add: GetStockData_miss)
next
  fix apiResponse :: AlphaVantageResponse
  let ?dates = "take (nat (NDays config)) (sort_Reverse_StringSlice (map fst (TimeSeries apiResponse)))"
  assume miss: "\<not> snd (Cache_Get t_get (cache s) (Config.Symbol config))"
    and fetched: "client (Config.Symbol config) (NDays config) = Inr apiResponse"
    and bad: "0 \<le> NDays config \<and>
      (\<exists>date\<in>set ?dates. pf (DailyPrice.Close (TimeSeries_index (TimeSeries apiResponse) date)) = None)"
  from bad obtain date where "date \<in> set ?dates"
    and "pf (DailyPrice.Close (TimeSeries_index (TimeSeries apiResponse) date)) = None"
    by blast
  then have "\<exists>date'. process_dates pf (TimeSeries apiResponse) ?dates [] (Finite 0) = Inl date'"
    by (rule process_dates_fails)
  then obtain date' where
    pd: "process_dates pf (TimeSeries apiResponse) ?dates [] (Finite 0) = Inl date'"
    by blast
  from process_dates_Inl [OF pd]
  have none: "pf (DailyPrice.Close (TimeSeries_index (TimeSeries apiResponse) date')) = None"
    by simp
  from bad have nn: "0 \<le> NDays config" by simp
  have "processAPIResponse pf config apiResponse = Returns (Inl (ErrParseClose date'))"
    unfolding processAPIResponse_nonneg [OF nn] pd by simp
  then have "GetStockData pf config client t_get t_set s =
      (Returns (Inl (Inr (ErrParseClose date'))),
       s\<lparr>fetches := fetches s @ [(Config.Symbol config, NDays config)]\<rparr>)"
    using fetched by (simp add: GetStockData_miss [OF miss])
  with none show "\<exists>date. GetStockData pf config client t_get t_set s =
               (Returns (Inl (Inr (ErrParseClose date))),
                s\<lparr>fetches := fetches s @ [(Config.Symbol config, NDays config)]\<rparr>) \<and>
               pf (DailyPrice.Close (TimeSeries_index (TimeSeries apiResponse) date)) = None"
    by blast
next
  fix apiResponse :: AlphaVantageResponse
  assume miss: "\<not> snd (Cache_Get t_get (cache s) (Config.Symbol config))"
    and fetched: "client (Config.Symbol config) (NDays config) = Inr apiResponse"
    and z: "min (NDays config) (int (length (TimeSeries apiResponse))) = 0"
  let ?dates = "take (nat (NDays config)) (sort_Reverse_StringSlice (map fst (TimeSeries apiResponse)))"
  from z have nn: "0 \<le> NDays config" by linarith
  from z have "NDays config = 0 \<or> TimeSeries apiResponse = []"
    by (auto simp add: min_def split: if_splits)
  then have e: "?dates = []" by (auto simp add: sort_Reverse_StringSlice_def)
  have "processAPIResponse pf config apiResponse =
      Returns (Inl (ErrNoPriceData (Config.Symbol config)))"
    unfolding processAPIResponse_nonneg [OF nn] e by simp
  then show "GetStockData pf config client t_get t_set s =
              (Returns (Inl (Inr (ErrNoPriceData (Config.Symbol config)))),
               s\<lparr>fetches := fetches s @ [(Config.Symbol config, NDays config)]\<rparr>)"
    using fetched by (simp add: GetStockData_miss [OF miss])
qed


lemma GetStockData_example:
  "GetStockData ParseFloat_decimal (example_Config 2) (\<lambda>symbol days. Inr example_Response)
     t_get t_set New_ServiceState =
   (Returns (Inr example_StockData),
    \<lparr>cache = Cache_Set t_set Cache_New ''AAPL'' (PtrStockData example_StockData) cacheDuration,
     fetches = [(''AAPL'', 2)]\<rparr>)"
proof -
  have m: "\<not> snd (Cache_Get t_get (cache New_ServiceState) (Config.Symbol (example_Config 2)))"
    by (simp add: Cache_Get_def Cache_New_def New_ServiceState_def)
  show ?thesis
    by (simp add: GetStockData_miss [OF m] processAPIResponse_example)
       (simp add: New_ServiceState_def example_Config_def)
qed

text \<open>
  The theorem at work on a new service, with three days asked for: a client that fails with
  a timeout, the payload of the tests with the close price \<^verbatim>\<open>invalid\<close>, and the payload
  without dates. The cache is empty after each of the three calls.
\<close>

theorem GetStockData_failure_atomic_witness:
  "GetStockData ParseFloat_decimal (example_Config 3) (\<lambda>symbol days. Inl ''timeout'')
     10 20 New_ServiceState
     = (Returns (Inl (Inl ''timeout'')), \<lparr>cache = Cache_New, fetches = [(''AAPL'', 3)]\<rparr>) \<and>
   (\<exists>date. GetStockData ParseFloat_decimal (example_Config 3)
        (\<lambda>symbol days. Inr invalid_Response :: string + AlphaVantageResponse) 10 20 New_ServiceState
     = (Returns (Inl (Inr (ErrParseClose date))), \<lparr>cache = Cache_New, fetches = [(''AAPL'', 3)]\<rparr>)) \<and>
   GetStockData ParseFloat_decimal (example_Config 3)
        (\<lambda>symbol days. Inr empty_Response :: string + AlphaVantageResponse) 10 20 New_ServiceState
     = (Returns (Inl (Inr (ErrNoPriceData ''AAPL''))), \<lparr>cache = Cache_New, fetches = [(''AAPL'', 3)]\<rparr>)"
proof -
  let ?s1 = "New_ServiceState\<lparr>fetches := fetches New_ServiceState @
      [(Config.Symbol (example_Config 3), NDays (example_Config 3))]\<rparr>"
  have s1: "?s1 = \<lparr>cache = Cache_New, fetches = [(''AAPL'', 3)]\<rparr>"
    by (simp add: New_ServiceState_def example_Config_def)
  have miss: "\<not> snd (Cache_Get 10 (cache New_ServiceState) (Config.Symbol (example_Config 3)))"
    by (simp add: Cache_Get_def Cache_New_def New_ServiceState_def)
  have bad: "0 \<le> NDays (example_Config 3) \<and>
      (\<exists>date\<in>set (take (nat (NDays (example_Config 3)))
             (sort_Reverse_StringSlice (map fst (TimeSeries invalid_Response)))).
         ParseFloat_decimal (DailyPrice.Close (TimeSeries_index (TimeSeries invalid_Response) date))
           = None)"
    by (simp add: example_Config_def invalid_Response_def sort_Reverse_StringSlice_def
        TimeSeries_index_def DailyPrice_of_Close_def ParseFloat_decimal_invalid)
  have none: "min (NDays (example_Config 3)) (int (length (TimeSeries empty_Response))) = 0"
    by (simp add: example_Config_def empty_Response_def)
  note a = GetStockData_failure_atomic [of ParseFloat_decimal "example_Config 3"
      "\<lambda>symbol days. Inl ''timeout''" 10 20 New_ServiceState]
  note b = GetStockData_failure_atomic [of ParseFloat_decimal "example_Config 3"
      "\<lambda>symbol days. Inr invalid_Response :: string + AlphaVantageResponse" 10 20 New_ServiceState]
  note c = GetStockData_failure_atomic [of ParseFloat_decimal "example_Config 3"
      "\<lambda>symbol days. Inr empty_Response :: string + AlphaVantageResponse" 10 20 New_ServiceState]
  from a miss have "GetStockData ParseFloat_decimal (example_Config 3)
      (\<lambda>symbol days. Inl ''timeout'') 10 20 New_ServiceState = (Returns (Inl (Inl ''timeout'')), ?s1)"
    by blast
  moreover from b miss bad have "\<exists>date. GetStockData ParseFloat_decimal (example_Config 3)
      (\<lambda>symbol days. Inr invalid_Response :: string + AlphaVantageResponse) 10 20 New_ServiceState
      = (Returns (Inl (Inr (ErrParseClose date))), ?s1)"
    by blast
  moreover from c miss none have "GetStockData ParseFloat_decimal (example_Config 3)
      (\<lambda>symbol days. Inr empty_Response :: string + AlphaVantageResponse) 10 20 New_ServiceState
      = (Returns (Inl (Inr (ErrNoPriceData (Config.Symbol (example_Config 3))))), ?s1)"
    by blast
  ultimately show ?thesis
    unfolding s1 by (simp add: example_Config_def)
qed

lemma processAPIResponse_zero_days:
  "NDays config = 0 \<Longrightarrow>
     processAPIResponse pf config apiResponse = Returns (Inl (ErrNoPriceData (Config.Symbol config)))"
  by (simp add: processAPIResponse_nonneg)

text \<open>
  Claim C6 at the day count \<open>-1\<close>. With \<^verbatim>\<open>NDays = -1\<close> the test \<^verbatim>\<open>len(dates) > NDays\<close> holds
  for every payload and the slice expression \<^verbatim>\<open>dates[:-1]\<close> panics: on a new service (a
  cache miss) whose client returns the payload of three days, \<^verbatim>\<open>GetStockData\<close> does not
  return the error "no price data", it panics. (With the day count 0 the claim holds, see
  \<open>processAPIResponse_zero_days\<close>.)
\<close>

theorem GetStockData_negative_days_panics:
  "fst (GetStockData pf (example_Config (- 1)) (\<lambda>symbol days. Inr example_Response)
         t_get t_set New_ServiceState)
     = Panics (SliceBoundsOutOfRange (- 1))"
proof -
  have m: "\<not> snd (Cache_Get t_get (cache New_ServiceState) (Config.Symbol (example_Config (- 1))))"
    by (simp add: Cache_Get_def Cache_New_def New_ServiceState_def)
  have n: "NDays (example_Config (- 1)) < 0"
    by (simp add: example_Config_def)
  show ?thesis
    by (simp add: GetStockData_miss [OF m] processAPIResponse_negative [OF n])
       (simp add: example_Config_def)
qed

lemma sint_cacheDuration: "sint cacheDuration = 900000000000"
  by (simp add: cacheDuration_def)

lemma GetStockData_hit_unexpired:
  assumes "items (cache s) (Config.Symbol config) = Some \<lparr>Value = PtrStockData d, Expiration = e\<rparr>"
    and "sint t_get \<le> sint e"
  shows "GetStockData pf config client t_get t_set s = (Returns (Inr d), s)"
proof -
  have "Cache_Get t_get (cache s) (Config.Symbol config) = (Some (PtrStockData d), True)"
    using assms by (simp add: Cache_Get_def)
  then show ?thesis by (rule GetStockData_hit)
qed

lemma Add_UnixNano_cacheDuration:
  assumes "sint t_set + 900000000000 < 2 ^ 63"
  shows "sint (Add_UnixNano t_set cacheDuration) = sint t_set + 900000000000"
proof -
  have "sint (t_set + cacheDuration) = sint t_set + sint cacheDuration"
    using assms sint_int64_bounds [of t_set]
    by (intro sint_add_no_wrap) (simp_all add: sint_cacheDuration)
  then show ?thesis by (simp add: Add_UnixNano_def sint_cacheDuration)
qed

text \<open>
  Claim C2. When \<^verbatim>\<open>GetStockData\<close> succeeds on a service with an empty cache, it has called
  the client exactly once, with the symbol and the day count, the \<^verbatim>\<open>StockData\<close> it returns
  is the transform of the client's payload, and the cache holds a pointer to it under the
  symbol, expiring 15 minutes after the clock reading of the \<^verbatim>\<open>Set\<close>. Every later call
  whose \<^verbatim>\<open>Get\<close> reads the clock not after that expiry instant returns the same \<^verbatim>\<open>StockData\<close>
  and leaves the state as it is, so it calls the client zero times, whatever the client
  would answer; in particular every call within 15 minutes of the \<^verbatim>\<open>Set\<close>, the expiry
  instant being inside the \<^verbatim>\<open>int64\<close> range of nanosecond clock readings (before the year
  2262). In any state, a call whose \<^verbatim>\<open>Get\<close> finds a \<^verbatim>\<open>StockData\<close> returns it and changes
  nothing: no call of the client, no transform, no write to the cache.
\<close>

theorem GetStockData_miss_then_hit:
  fixes client :: "string \<Rightarrow> int \<Rightarrow> 'e + AlphaVantageResponse"
  assumes "GetStockData pf config client t_get t_set \<lparr>cache = Cache_New, fetches = []\<rparr>
             = (Returns (Inr d), s1)"
  shows "fetches s1 = [(Config.Symbol config, NDays config)] \<and>
     (\<exists>apiResponse. client (Config.Symbol config) (NDays config) = Inr apiResponse \<and>
        processAPIResponse pf config apiResponse = Returns (Inr d)) \<and>
     items (cache s1) (Config.Symbol config)
       = Some \<lparr>Value = PtrStockData d, Expiration = Add_UnixNano t_set cacheDuration\<rparr> \<and>
     (\<forall>(client' :: string \<Rightarrow> int \<Rightarrow> 'e + AlphaVantageResponse) t_get' t_set'.
        sint t_get' \<le> sint (Add_UnixNano t_set cacheDuration) \<longrightarrow>
        GetStockData pf config client' t_get' t_set' s1 = (Returns (Inr d), s1)) \<and>
     (\<forall>(client' :: string \<Rightarrow> int \<Rightarrow> 'e + AlphaVantageResponse) t_get' t_set'.
        sint t_set + 900000000000 < 2 ^ 63 \<and> sint t_get' < sint t_set + 900000000000 \<longrightarrow>
        GetStockData pf config client' t_get' t_set' s1 = (Returns (Inr d), s1)) \<and>
     (\<forall>(client' :: string \<Rightarrow> int \<Rightarrow> 'e + AlphaVantageResponse) t_get' t_set' s d'.
        Cache_Get t_get' (cache s) (Config.Symbol config) = (Some (PtrStockData d'), True) \<longrightarrow>
        GetStockData pf config client' t_get' t_set' s = (Returns (Inr d'), s))"
proof -
  let ?s0 = "\<lparr>cache = Cache_New, fetches = []\<rparr>"
  have miss: "Cache_Get t_get (cache ?s0) (Config.Symbol config) \<noteq> (Some (PtrStockData d), True)"
    by (simp add: Cache_Get_def Cache_New_def)
  from GetStockData_success_cases [OF assms] miss obtain apiResponse where
    f: "client (Config.Symbol config) (NDays config) = Inr apiResponse"
    and p: "processAPIResponse pf config apiResponse = Returns (Inr d)"
    and s1: "s1 = ?s0\<lparr>fetches := fetches ?s0 @ [(Config.Symbol config, NDays config)],
                cache := Cache_Set t_set (cache ?s0) (Config.Symbol config)
                           (PtrStockData d) cacheDuration\<rparr>"
    by blast
  have a: "fetches s1 = [(Config.Symbol config, NDays config)]"
    by (simp add: s1)
  have c: "items (cache s1) (Config.Symbol config)
       = Some \<lparr>Value = PtrStockData d, Expiration = Add_UnixNano t_set cacheDuration\<rparr>"
    by (simp add: s1 Cache_Set_def)
  show ?thesis
  proof (intro conjI allI impI)
    show "fetches s1 = [(Config.Symbol config, NDays config)]" by (rule a)
    show "\<exists>apiResponse. client (Config.Symbol config) (NDays config) = Inr apiResponse \<and>
        processAPIResponse pf config apiResponse = Returns (Inr d)"
      using f p by blast
    show "items (cache s1) (Config.Symbol config)
       = Some \<lparr>Value = PtrStockData d, Expiration = Add_UnixNano t_set cacheDuration\<rparr>"
      by (rule c)
  next
    fix client' :: "string \<Rightarrow> int \<Rightarrow> 'e + AlphaVantageResponse" and t_get' t_set' :: int64
    assume "sint t_get' \<le> sint (Add_UnixNano t_set cacheDuration)"
    with c show "GetStockData pf config client' t_get' t_set' s1 = (Returns (Inr d), s1)"
      by (rule GetStockData_hit_unexpired)
  next
    fix client' :: "string \<Rightarrow> int \<Rightarrow> 'e + AlphaVantageResponse" and t_get' t_set' :: int64
    assume "sint t_set + 900000000000 < 2 ^ 63 \<and> sint t_get' < sint t_set + 900000000000"
    then have "sint t_get' \<le> sint (Add_UnixNano t_set cacheDuration)"
      by (simp add: Add_UnixNano_cacheDuration)
    with c show "GetStockData pf config client' t_get' t_set' s1 = (Returns (Inr d), s1)"
      by (rule GetStockData_hit_unexpired)
  next
    fix client' :: "string \<Rightarrow> int \<Rightarrow> 'e + AlphaVantageResponse" and t_get' t_set' :: int64
      and s :: ServiceState and d'
    assume "Cache_Get t_get' (cache s) (Config.Symbol config) = (Some (PtrStockData d'), True)"
    then show "GetStockData pf config client' t_get' t_set' s = (Returns (Inr d'), s)"
      by (rule GetStockData_hit)
  qed
qed

text \<open>
  The theorem at work: a first call on a new service stores the result at clock reading
  2000; a second call one nanosecond before the 15 minutes have elapsed, with a client
  that would fail, returns the stored result and leaves the state unchanged.
\<close>

theorem GetStockData_miss_then_hit_witness:
  "GetStockData ParseFloat_decimal (example_Config 2)
      (\<lambda>symbol days. Inr example_Response :: string + AlphaVantageResponse)
      1000 2000 \<lparr>cache = Cache_New, fetches = []\<rparr>
     = (Returns (Inr example_StockData),
        \<lparr>cache = Cache_Set 2000 Cache_New ''AAPL'' (PtrStockData example_StockData) cacheDuration,
         fetches = [(''AAPL'', 2)]\<rparr>) \<and>
   GetStockData ParseFloat_decimal (example_Config 2)
      (\<lambda>symbol days. Inl ''unavailable'' :: string + AlphaVantageResponse)
      900000001999 900000002999
      \<lparr>cache = Cache_Set 2000 Cache_New ''AAPL'' (PtrStockData example_StockData) cacheDuration,
       fetches = [(''AAPL'', 2)]\<rparr>
     = (Returns (Inr example_StockData),
        \<lparr>cache = Cache_Set 2000 Cache_New ''AAPL'' (PtrStockData example_StockData) cacheDuration,
         fetches = [(''AAPL'', 2)]\<rparr>)"
proof -
  let ?s1 = "\<lparr>cache = Cache_Set 2000 Cache_New ''AAPL'' (PtrStockData example_StockData)
      cacheDuration, fetches = [(''AAPL'', 2)]\<rparr>"
  have first: "GetStockData ParseFloat_decimal (example_Config 2)
      (\<lambda>symbol days. Inr example_Response :: string + AlphaVantageResponse)
      1000 2000 \<lparr>cache = Cache_New, fetches = []\<rparr> = (Returns (Inr example_StockData), ?s1)"
    using GetStockData_example [of 1000 2000] by (simp add: New_ServiceState_def)
  have time: "sint (2000 :: int64) + 900000000000 < 2 ^ 63 \<and>
      sint (900000001999 :: int64) < sint (2000 :: int64) + 900000000000"
    by simp
  from GetStockData_miss_then_hit [OF first] time
  have "GetStockData ParseFloat_decimal (example_Config 2)
      (\<lambda>symbol days. Inl ''unavailable'' :: string + AlphaVantageResponse)
      900000001999 900000002999 ?s1 = (Returns (Inr example_StockData), ?s1)"
    by blast
  with first show ?thesis by blast
qed

lemma processAPIResponse_Panics:
  "processAPIResponse pf config apiResponse = Panics p \<Longrightarrow> p = SliceBoundsOutOfRange (NDays config)"
  by (auto simp add: processAPIResponse_def slice_upto_def Let_def
      split: if_splits sum.splits prod.splits)

lemma GetStockData_miss_no_InterfaceConversion:
  assumes "\<not> snd (Cache_Get t_get (cache s) (Config.Symbol config))"
  shows "fst (GetStockData pf config client t_get t_set s) \<noteq> Panics InterfaceConversion"
  unfolding GetStockData_miss [OF assms]
  by (auto simp add: Let_def split: sum.splits outcome.splits dest: processAPIResponse_Panics)

lemma GetStockData_cache_invariant:
  assumes "\<forall>key item. items (cache s) key = Some item \<longrightarrow>
        key = Config.Symbol config \<and>
        (\<exists>d apiResponse. Value item = PtrStockData d \<and>
           processAPIResponse pf config apiResponse = Returns (Inr d))"
  shows "\<forall>key item.
        items (cache (snd (GetStockData pf config client t_get t_set s))) key = Some item \<longrightarrow>
        key = Config.Symbol config \<and>
        (\<exists>d apiResponse. Value item = PtrStockData d \<and>
           processAPIResponse pf config apiResponse = Returns (Inr d))"
proof -
  obtain r s' where g: "GetStockData pf config client t_get t_set s = (r, s')"
    by (cases "GetStockData pf config client t_get t_set s")
  show ?thesis
  proof (cases "\<exists>d. r = Returns (Inr d)")
    case False
    with g have "cache s' = cache s"
      by (intro GetStockData_failure_cache) auto
    with assms g show ?thesis by simp
  next
    case True
    then obtain d where r: "r = Returns (Inr d)" by blast
    from GetStockData_success_cases [OF g [unfolded r]]
    show ?thesis
    proof
      assume "Cache_Get t_get (cache s) (Config.Symbol config) = (Some (PtrStockData d), True) \<and> s' = s"
      with assms g show ?thesis by simp
    next
      assume "\<exists>apiResponse.
        \<not> snd (Cache_Get t_get (cache s) (Config.Symbol config)) \<and>
        client (Config.Symbol config) (NDays config) = Inr apiResponse \<and>
        processAPIResponse pf config apiResponse = Returns (Inr d) \<and>
        s' = s\<lparr>fetches := fetches s @ [(Config.Symbol config, NDays config)],
                cache := Cache_Set t_set (cache s) (Config.Symbol config)
                           (PtrStockData d) cacheDuration\<rparr>"
      then obtain apiResponse where
        p: "processAPIResponse pf config apiResponse = Returns (Inr d)"
        and s': "s' = s\<lparr>fetches := fetches s @ [(Config.Symbol config, NDays config)],
                cache := Cache_Set t_set (cache s) (Config.Symbol config)
                           (PtrStockData d) cacheDuration\<rparr>"
        by blast
      show ?thesis
        using assms p unfolding g s'
        by (auto simp add: Cache_Set_def split: if_splits)
    qed
  qed
qed

lemma GetStockData_calls_cache_invariant:
  assumes "\<forall>key item. items (cache s) key = Some item \<longrightarrow>
        key = Config.Symbol config \<and>
        (\<exists>d apiResponse. Value item = PtrStockData d \<and>
           processAPIResponse pf config apiResponse = Returns (Inr d))"
  shows "\<forall>key item. items (cache (GetStockData_calls pf config calls s)) key = Some item \<longrightarrow>
        key = Config.Symbol config \<and>
        (\<exists>d apiResponse. Value item = PtrStockData d \<and>
           processAPIResponse pf config apiResponse = Returns (Inr d))"
  using assms
proof (induction calls arbitrary: s)
  case Nil
  then show ?case by simp
next
  case (Cons call calls)
  obtain client t_get t_set where call: "call = (client, t_get, t_set)"
    by (cases call)
  from GetStockData_cache_invariant [OF Cons.prems]
  have "\<forall>key item.
        items (cache (snd (GetStockData pf config client t_get t_set s))) key = Some item \<longrightarrow>
        key = Config.Symbol config \<and>
        (\<exists>d apiResponse. Value item = PtrStockData d \<and>
           processAPIResponse pf config apiResponse = Returns (Inr d))" .
  from Cons.IH [OF this] show ?case by (simp add: call)
qed

text \<open>
  Claim C9. In every state that a newly created service reaches through calls of
  \<^verbatim>\<open>GetStockData\<close>, whatever the client answers and whatever the clock reads, the cache has
  entries under the symbol only, and the value of each is a pointer to a \<^verbatim>\<open>StockData\<close>
  that is the result of a successful transform. So from such a state a call of
  \<^verbatim>\<open>GetStockData\<close> never panics in its type assertion, and a cache hit returns the result
  of a successful transform and leaves the state as it is.
\<close>

theorem GetStockData_type_assertion_safe:
  fixes client :: "string \<Rightarrow> int \<Rightarrow> 'e + AlphaVantageResponse"
    and calls :: "((string \<Rightarrow> int \<Rightarrow> 'e + AlphaVantageResponse) \<times> int64 \<times> int64) list"
  assumes "s = GetStockData_calls pf config calls \<lparr>cache = Cache_New, fetches = []\<rparr>"
  shows "(\<forall>key item. items (cache s) key = Some item \<longrightarrow>
        key = Config.Symbol config \<and>
        (\<exists>d apiResponse. Value item = PtrStockData d \<and>
           processAPIResponse pf config apiResponse = Returns (Inr d))) \<and>
     fst (GetStockData pf config client t_get t_set s) \<noteq> Panics InterfaceConversion \<and>
     (snd (Cache_Get t_get (cache s) (Config.Symbol config)) \<longrightarrow>
        (\<exists>d apiResponse. GetStockData pf config client t_get t_set s = (Returns (Inr d), s) \<and>
           processAPIResponse pf config apiResponse = Returns (Inr d)))"
proof -
  have "\<forall>key item. items (cache \<lparr>cache = Cache_New, fetches = []\<rparr>) key = Some item \<longrightarrow>
        key = Config.Symbol config \<and>
        (\<exists>d apiResponse. Value item = PtrStockData d \<and>
           processAPIResponse pf config apiResponse = Returns (Inr d))"
    by (simp add: Cache_New_def)
  then have inv: "\<forall>key item. items (cache s) key = Some item \<longrightarrow>
        key = Config.Symbol config \<and>
        (\<exists>d apiResponse. Value item = PtrStockData d \<and>
           processAPIResponse pf config apiResponse = Returns (Inr d))"
    unfolding assms by (rule GetStockData_calls_cache_invariant)
  have hit: "\<exists>d apiResponse. GetStockData pf config client t_get t_set s = (Returns (Inr d), s) \<and>
           processAPIResponse pf config apiResponse = Returns (Inr d)"
    if found: "snd (Cache_Get t_get (cache s) (Config.Symbol config))"
  proof -
    from found Cache_Get_cases [of t_get "cache s" "Config.Symbol config"]
    obtain item where i: "items (cache s) (Config.Symbol config) = Some item"
      and g: "Cache_Get t_get (cache s) (Config.Symbol config) = (Some (Value item), True)"
      by auto
    from inv i obtain d apiResponse where v: "Value item = PtrStockData d"
      and p: "processAPIResponse pf config apiResponse = Returns (Inr d)"
      by blast
    from g v have "GetStockData pf config client t_get t_set s = (Returns (Inr d), s)"
      by (intro GetStockData_hit) simp
    with p show ?thesis by blast
  qed
  have safe: "fst (GetStockData pf config client t_get t_set s) \<noteq> Panics InterfaceConversion"
  proof (cases "snd (Cache_Get t_get (cache s) (Config.Symbol config))")
    case True
    from hit [OF True] show ?thesis by auto
  next
    case False
    then show ?thesis by (rule GetStockData_miss_no_InterfaceConversion)
  qed
  from inv hit safe show ?thesis by blast
qed

text \<open>
  The theorem at work on the state after one successful call: the next call is a hit, and
  it returns a result of the transform.
\<close>

theorem GetStockData_type_assertion_safe_witness:
  "GetStockData_calls ParseFloat_decimal (example_Config 2)
     [(\<lambda>symbol days. Inr example_Response :: string + AlphaVantageResponse, 1000, 2000)]
     \<lparr>cache = Cache_New, fetches = []\<rparr>
     = \<lparr>cache = Cache_Set 2000 Cache_New ''AAPL'' (PtrStockData example_StockData) cacheDuration,
        fetches = [(''AAPL'', 2)]\<rparr> \<and>
   items (Cache_Set 2000 Cache_New ''AAPL'' (PtrStockData example_StockData) cacheDuration) ''AAPL''
     = Some \<lparr>Value = PtrStockData example_StockData, Expiration = 900000002000\<rparr> \<and>
   snd (Cache_Get 3000
         (Cache_Set 2000 Cache_New ''AAPL'' (PtrStockData example_StockData) cacheDuration) ''AAPL'') \<and>
   fst (GetStockData ParseFloat_decimal (example_Config 2)
         (\<lambda>symbol days. Inl ''unavailable'' :: string + AlphaVantageResponse) 3000 4000
         \<lparr>cache = Cache_Set 2000 Cache_New ''AAPL'' (PtrStockData example_StockData) cacheDuration,
          fetches = [(''AAPL'', 2)]\<rparr>) \<noteq> Panics InterfaceConversion \<and>
   (\<exists>d apiResponse.
      GetStockData ParseFloat_decimal (example_Config 2)
        (\<lambda>symbol days. Inl ''unavailable'' :: string + AlphaVantageResponse) 3000 4000
        \<lparr>cache = Cache_Set 2000 Cache_New ''AAPL'' (PtrStockData example_StockData) cacheDuration,
         fetches = [(''AAPL'', 2)]\<rparr>
       = (Returns (Inr d),
          \<lparr>cache = Cache_Set 2000 Cache_New ''AAPL'' (PtrStockData example_StockData) cacheDuration,
           fetches = [(''AAPL'', 2)]\<rparr>) \<and>
      processAPIResponse ParseFloat_decimal (example_Config 2) apiResponse = Returns (Inr d))"
proof -
  let ?s1 = "\<lparr>cache = Cache_Set 2000 Cache_New ''AAPL'' (PtrStockData example_StockData)
      cacheDuration, fetches = [(''AAPL'', 2)]\<rparr>"
  let ?calls = "[(\<lambda>symbol days. Inr example_Response :: string + AlphaVantageResponse,
      1000 :: int64, 2000 :: int64)]"
  have "GetStockData ParseFloat_decimal (example_Config 2)
      (\<lambda>symbol days. Inr example_Response :: string + AlphaVantageResponse) 1000 2000
      \<lparr>cache = Cache_New, fetches = []\<rparr> = (Returns (Inr example_StockData), ?s1)"
    using GetStockData_example [of 1000 2000] unfolding New_ServiceState_def .
  then have r: "?s1 = GetStockData_calls ParseFloat_decimal (example_Config 2) ?calls
      \<lparr>cache = Cache_New, fetches = []\<rparr>"
    by simp
  have i: "items (cache ?s1) ''AAPL''
      = Some \<lparr>Value = PtrStockData example_StockData, Expiration = 900000002000\<rparr>"
    by (simp add: Cache_Set_def Add_UnixNano_def cacheDuration_def)
  have f: "snd (Cache_Get 3000 (cache ?s1) (Config.Symbol (example_Config 2)))"
    by (simp add: Cache_Get_Set_same example_Config_def cacheDuration_def)
  note t = GetStockData_type_assertion_safe [OF r,
      of "\<lambda>symbol days. Inl ''unavailable'' :: string + AlphaVantageResponse" 3000 4000]
  from t f have "fst (GetStockData ParseFloat_decimal (example_Config 2)
         (\<lambda>symbol days. Inl ''unavailable'' :: string + AlphaVantageResponse) 3000 4000 ?s1)
       \<noteq> Panics InterfaceConversion \<and>
     (\<exists>d apiResponse.
        GetStockData ParseFloat_decimal (example_Config 2)
          (\<lambda>symbol days. Inl ''unavailable'' :: string + AlphaVantageResponse) 3000 4000 ?s1
         = (Returns (Inr d), ?s1) \<and>
        processAPIResponse ParseFloat_decimal (example_Config 2) apiResponse = Returns (Inr d))"
    by blast
  with r [symmetric] i f show ?thesis by (simp add: example_Config_def)
qed

lemma sort_distinct_set:
  assumes "distinct xs" and "set xs = set ys"
  shows "sort xs = sort (remdups ys)"
proof -
  have "sort xs = sort (remdups xs)" using assms(1) by (simp add: distinct_remdups_id)
  also have "\<dots> = sorted_list_of_set (set xs)" by (simp add: sorted_list_of_set_sort_remdups)
  also have "\<dots> = sorted_list_of_set (set ys)" by (simp add: assms(2))
  also have "\<dots> = sort (remdups ys)" by (simp add: sorted_list_of_set_sort_remdups)
  finally show ?thesis .
qed

text \<open>
  Claim C5. For the payload whose map has the three dates 2023-01-01, 2023-01-02 and
  2023-01-03 with the close prices "140.20", "145.50" and "150.10", in whatever order the
  map is traversed, and the day count 2, the transform returns exactly the prices
  (2023-01-03, 150.10) and (2023-01-02, 145.50), in this order, and the average 147.8,
  the decimal numbers standing for the nearest \<^verbatim>\<open>float64\<close> values, as in Go. The two
  hypotheses on \<^verbatim>\<open>strconv.ParseFloat\<close> are its contract on the two close prices that are
  parsed: it returns the nearest \<^verbatim>\<open>float64\<close>.
\<close>

theorem processAPIResponse_two_of_three_days:
  assumes "distinct (map fst ts)"
    and "set ts = {(''2023-01-01'', p1), (''2023-01-02'', p2), (''2023-01-03'', p3)}"
    and "DailyPrice.Close p1 = ''140.20''"
    and "DailyPrice.Close p2 = ''145.50''"
    and "DailyPrice.Close p3 = ''150.10''"
    and "NDays config = 2"
    and "pf ''145.50'' = Some (round64 (14550 / 100))"
    and "pf ''150.10'' = Some (round64 (15010 / 100))"
  shows "processAPIResponse pf config \<lparr>MetaData = md, TimeSeries = ts\<rparr> =
     Returns (Inr \<lparr>StockData.Symbol = Config.Symbol config,
       Prices = [\<lparr>Date = ''2023-01-03'', StockPrice.Close = round64 (15010 / 100)\<rparr>,
                 \<lparr>Date = ''2023-01-02'', StockPrice.Close = round64 (14550 / 100)\<rparr>],
       Average = round64 (1478 / 10)\<rparr>)"
proof -
  have "set (map fst ts) = set [''2023-01-01'', ''2023-01-02'', ''2023-01-03'']"
    using assms(2) by auto
  with assms(1) have "sort (map fst ts) = sort (remdups [''2023-01-01'', ''2023-01-02'', ''2023-01-03''])"
    by (rule sort_distinct_set)
  then have dates: "sort_Reverse_StringSlice (map fst ts)
      = [''2023-01-03'', ''2023-01-02'', ''2023-01-01'']"
    by (simp add: sort_Reverse_StringSlice_def)
  have "map_of ts ''2023-01-03'' = Some p3" and "map_of ts ''2023-01-02'' = Some p2"
    using assms(1,2) by simp_all
  then have idx: "TimeSeries_index ts ''2023-01-03'' = p3" "TimeSeries_index ts ''2023-01-02'' = p2"
    by (simp_all add: TimeSeries_index_def)
  have nn: "0 \<le> NDays config" using assms(6) by simp
  show ?thesis
    unfolding processAPIResponse_nonneg [OF nn]
    by (simp add: dates idx assms(4-8) round64_150_10 round64_145_50 round64_147_80
        fadd_zero_150_10 fadd_150_10_145_50 fdiv_295_60_by_2 del: fadd.simps)
qed

text \<open>
  The theorem at work on the payload of three days, with the decimal part of
  \<^verbatim>\<open>strconv.ParseFloat\<close>.
\<close>

theorem processAPIResponse_two_of_three_days_witness:
  "processAPIResponse ParseFloat_decimal (example_Config 2) example_Response =
     Returns (Inr \<lparr>StockData.Symbol = ''AAPL'',
       Prices = [\<lparr>Date = ''2023-01-03'', StockPrice.Close = round64 (15010 / 100)\<rparr>,
                 \<lparr>Date = ''2023-01-02'', StockPrice.Close = round64 (14550 / 100)\<rparr>],
       Average = round64 (1478 / 10)\<rparr>)"
proof -
  have d: "distinct (map fst (TimeSeries example_Response))"
    by (simp add: example_Response_def)
  have s: "set (TimeSeries example_Response) =
      {(''2023-01-01'', DailyPrice_of_Close ''140.20''),
       (''2023-01-02'', DailyPrice_of_Close ''145.50''),
       (''2023-01-03'', DailyPrice_of_Close ''150.10'')}"
    by (simp add: example_Response_def)
  have c: "DailyPrice.Close (DailyPrice_of_Close ''140.20'') = ''140.20''"
    "DailyPrice.Close (DailyPrice_of_Close ''145.50'') = ''145.50''"
    "DailyPrice.Close (DailyPrice_of_Close ''150.10'') = ''150.10''"
    by (simp_all add: DailyPrice_of_Close_def)
  have n: "NDays (example_Config 2) = 2"
    by (simp add: example_Config_def)
  have p: "ParseFloat_decimal ''145.50'' = Some (round64 (14550 / 100))"
    "ParseFloat_decimal ''150.10'' = Some (round64 (15010 / 100))"
    by (simp_all add: ParseFloat_decimal_145_50 ParseFloat_decimal_150_10
        round64_145_50 round64_150_10)
  from processAPIResponse_two_of_three_days [OF d s c n p, of MetaData_zero]
  show ?thesis by (simp add: example_Response_def example_Config_def)
qed

end
